theory Spec2Isabelle
  imports Complex_Main "HOL-Library.Word" "HOL-Library.Product_Lexorder"
begin

unbundle bit_operations_syntax

section \<open>Data model\<close>

text \<open>
  The store is PostgreSQL; the application holds no state of its own. The model keeps the
  two tables as lists of rows (in insertion order) together with the two SERIAL
  sequences. Instants are milliseconds since the epoch, in UTC, as the time value of a
  JavaScript \<^verbatim>\<open>Date\<close>. Strings are modelled by their UTF-8 bytes. Every statement is
  run at an instant \<open>now\<close> (the store's \<^verbatim>\<open>NOW()\<close> and \<^verbatim>\<open>CURRENT_TIMESTAMP\<close>), passed
  explicitly. The only constraint of the schema that the model enforces on events is the
  UNIQUE constraint on \<^verbatim>\<open>event_ref\<close>; column checks (the status list, VARCHAR lengths)
  are not modelled.
\<close>

type_synonym timestamp = int

text \<open>\<^verbatim>\<open>Omit<Event, 'id' | 'created_at' | 'updated_at'>\<close>: the columns a caller supplies.\<close>

record EventFields =
  event_ref :: string
  sport :: string
  league :: string
  home_team :: string
  away_team :: string
  event_date :: timestamp
  venue :: "string option"
  status :: string

text \<open>A row of \<^verbatim>\<open>events\<close> (schema 001 with \<^verbatim>\<open>is_archived\<close> added by migration 003).\<close>

record Event = EventFields +
  ev_id :: nat
  ev_created_at :: timestamp
  ev_updated_at :: timestamp
  is_archived :: bool

text \<open>\<^verbatim>\<open>Omit<Prediction, 'id' | 'created_at' | 'updated_at'>\<close>.\<close>

record PredictionFields =
  event_id :: nat
  prediction_type :: string
  predicted_value :: string
  confidence_score :: rat
  reasoning :: string
  model_version :: string

text \<open>A row of \<^verbatim>\<open>predictions\<close> (migration 003 dropped its \<^verbatim>\<open>is_archived\<close> column).\<close>

record Prediction = PredictionFields +
  pr_id :: nat
  pr_created_at :: timestamp
  pr_updated_at :: timestamp

record db =
  events :: "Event list"
  predictions :: "Prediction list"
  events_id_seq :: nat
  predictions_id_seq :: nat

text \<open>\<^verbatim>\<open>result.rows[0]\<close>: \<open>None\<close> is JavaScript's \<^verbatim>\<open>undefined\<close>.\<close>

definition rows0 :: "'a list \<Rightarrow> 'a option" where
  "rows0 rows = (case rows of [] \<Rightarrow> None | r # _ \<Rightarrow> Some r)"

section \<open>EventRepository\<close>

subsection \<open>create\<close>

text \<open>
  \<^verbatim>\<open>INSERT INTO events (...) VALUES (...) ON CONFLICT (event_ref) DO NOTHING RETURNING *\<close>.
  The id comes from the sequence, which the store advances before it detects the
  conflict; \<^verbatim>\<open>created_at\<close>, \<^verbatim>\<open>updated_at\<close> and \<^verbatim>\<open>is_archived\<close> take their defaults.
\<close>

definition insert_event_on_conflict_do_nothing ::
  "timestamp \<Rightarrow> db \<Rightarrow> EventFields \<Rightarrow> db \<times> Event list" where
  "insert_event_on_conflict_do_nothing now d ev =
     (let i = Suc (events_id_seq d);
          d1 = d\<lparr>events_id_seq := i\<rparr>
      in if list_ex (\<lambda>r. event_ref r = event_ref ev) (events d) then (d1, [])
         else
           (let row = \<lparr>event_ref = event_ref ev, sport = sport ev, league = league ev,
                       home_team = home_team ev, away_team = away_team ev,
                       event_date = event_date ev, venue = venue ev, status = status ev,
                       ev_id = i, ev_created_at = now, ev_updated_at = now,
                       is_archived = False\<rparr>
            in (d1\<lparr>events := events d @ [row]\<rparr>, [row])))"

text \<open>\<^verbatim>\<open>SELECT * FROM events WHERE event_ref = $1\<close>.\<close>

definition select_events_by_event_ref :: "db \<Rightarrow> string \<Rightarrow> Event list" where
  "select_events_by_event_ref d ref = filter (\<lambda>r. event_ref r = ref) (events d)"

definition EventRepository_create :: "timestamp \<Rightarrow> db \<Rightarrow> EventFields \<Rightarrow> db \<times> Event option" where
  "EventRepository_create now d ev =
     (case insert_event_on_conflict_do_nothing now d ev of
        (d1, rows) \<Rightarrow>
          if length rows = 0
          then (d1, rows0 (select_events_by_event_ref d1 (event_ref ev)))
          else (d1, rows0 rows))"

definition findByEventRef :: "db \<Rightarrow> string \<Rightarrow> Event option" where
  "findByEventRef d eventRef = rows0 (select_events_by_event_ref d eventRef)"


subsection \<open>archiveOldEvents\<close>

text \<open>
  \<^verbatim>\<open>UPDATE events SET is_archived = true WHERE is_archived = false
    AND event_date < NOW() - INTERVAL '${retentionDays} days'\<close>, returning \<^verbatim>\<open>rowCount || 0\<close>.
  A day of the interval is 24 hours (the session runs in UTC). The trigger
  \<^verbatim>\<open>update_events_updated_at\<close> sets \<^verbatim>\<open>updated_at\<close> of every row the statement updates.
\<close>

definition ms_per_day :: int where
  "ms_per_day = 24 * 60 * 60 * 1000"

definition archive_due :: "timestamp \<Rightarrow> int \<Rightarrow> Event \<Rightarrow> bool" where
  "archive_due now retentionDays e =
     (is_archived e = False \<and> event_date e < now - retentionDays * ms_per_day)"

definition archiveOldEvents :: "timestamp \<Rightarrow> db \<Rightarrow> int \<Rightarrow> db \<times> nat" where
  "archiveOldEvents now d retentionDays =
     (d\<lparr>events := map (\<lambda>e. if archive_due now retentionDays e
                             then e\<lparr>is_archived := True, ev_updated_at := now\<rparr> else e)
                      (events d)\<rparr>,
      length (filter (archive_due now retentionDays) (events d)))"

text \<open>\<^verbatim>\<open>ArchiveService.archiveOldPredictions\<close> (services/archiveService.ts).\<close>

record ArchiveJobResult =
  archivedCount :: nat
  retentionDays_of :: int
  archivedBefore :: timestamp

definition archiveOldPredictions :: "timestamp \<Rightarrow> db \<Rightarrow> int \<Rightarrow> db \<times> ArchiveJobResult" where
  "archiveOldPredictions now d retentionDays =
     (case archiveOldEvents now d retentionDays of
        (d1, n) \<Rightarrow>
          (d1, \<lparr>archivedCount = n, retentionDays_of = retentionDays,
                archivedBefore = now - retentionDays * 24 * 60 * 60 * 1000\<rparr>))"

section \<open>Identity hasher\<close>

datatype error =
    RangeError
  | TypeError
  | StorageError
  | AppError nat string

subsection \<open>SHA-256 (\<^verbatim>\<open>crypto.createHash('sha256')\<close>), FIPS 180-4\<close>

type_synonym u8 = "8 word"
type_synonym u32 = "32 word"

definition rotr :: "nat \<Rightarrow> u32 \<Rightarrow> u32" where
  "rotr n x = (drop_bit n x) OR (push_bit (32 - n) x)"

definition Ch :: "u32 \<Rightarrow> u32 \<Rightarrow> u32 \<Rightarrow> u32" where
  "Ch x y z = (x AND y) XOR (NOT x AND z)"
definition Maj :: "u32 \<Rightarrow> u32 \<Rightarrow> u32 \<Rightarrow> u32" where
  "Maj x y z = (x AND y) XOR (x AND z) XOR (y AND z)"
definition Sigma0 :: "u32 \<Rightarrow> u32" where
  "Sigma0 x = rotr 2 x XOR rotr 13 x XOR rotr 22 x"
definition Sigma1 :: "u32 \<Rightarrow> u32" where
  "Sigma1 x = rotr 6 x XOR rotr 11 x XOR rotr 25 x"
definition sigma0 :: "u32 \<Rightarrow> u32" where
  "sigma0 x = rotr 7 x XOR rotr 18 x XOR drop_bit 3 x"
definition sigma1 :: "u32 \<Rightarrow> u32" where
  "sigma1 x = rotr 17 x XOR rotr 19 x XOR drop_bit 10 x"

text \<open>
  The round constants (the first 32 bits of the fractional parts of the cube roots of the
  first 64 primes) and the initial hash value (of the square roots of the first 8 primes),
  in decimal.
\<close>

definition K256 :: "u32 list" where
  "K256 = [
    1116352408, 1899447441, 3049323471, 3921009573, 961987163, 1508970993, 2453635748, 2870763221,
    3624381080, 310598401, 607225278, 1426881987, 1925078388, 2162078206, 2614888103, 3248222580,
    3835390401, 4022224774, 264347078, 604807628, 770255983, 1249150122, 1555081692, 1996064986,
    2554220882, 2821834349, 2952996808, 3210313671, 3336571891, 3584528711, 113926993, 338241895,
    666307205, 773529912, 1294757372, 1396182291, 1695183700, 1986661051, 2177026350, 2456956037,
    2730485921, 2820302411, 3259730800, 3345764771, 3516065817, 3600352804, 4094571909, 275423344,
    430227734, 506948616, 659060556, 883997877, 958139571, 1322822218, 1537002063, 1747873779,
    1955562222, 2024104815, 2227730452, 2361852424, 2428436474, 2756734187, 3204031479, 3329325298]"

type_synonym hash_state = "u32 \<times> u32 \<times> u32 \<times> u32 \<times> u32 \<times> u32 \<times> u32 \<times> u32"

definition H256 :: hash_state where
  "H256 = (1779033703, 3144134277, 1013904242, 2773480762,
           1359893119, 2600822924, 528734635, 1541459225)"

definition bytes64 :: "64 word \<Rightarrow> u8 list" where
  "bytes64 w = map (\<lambda>i. ucast (drop_bit (8 * (7 - i)) w)) [0..<8]"

definition pad :: "u8 list \<Rightarrow> u8 list" where
  "pad m = (let l = length m; k = (119 - l mod 64) mod 64
            in m @ [0x80] @ replicate k 0 @ bytes64 (of_nat (8 * l)))"

fun be32 :: "u8 list \<Rightarrow> u32" where
  "be32 [a, b, c, d] = push_bit 24 (ucast a) OR push_bit 16 (ucast b) OR push_bit 8 (ucast c) OR ucast d"
| "be32 _ = 0"

fun chunks :: "nat \<Rightarrow> nat \<Rightarrow> 'a list \<Rightarrow> 'a list list" where
  "chunks 0 n xs = []"
| "chunks (Suc k) n xs = take n xs # chunks k n (drop n xs)"

definition schedule_step :: "u32 list \<Rightarrow> u32 list" where
  "schedule_step w = (let t = length w in
      w @ [sigma1 (w ! (t - 2)) + w ! (t - 7) + sigma0 (w ! (t - 15)) + w ! (t - 16)])"

definition schedule :: "u8 list \<Rightarrow> u32 list" where
  "schedule block = (schedule_step ^^ 48) (map be32 (chunks 16 4 block))"

definition round256 :: "hash_state \<Rightarrow> u32 \<times> u32 \<Rightarrow> hash_state" where
  "round256 s kw = (case s of (a, b, c, d, e, f, g, h) \<Rightarrow>
     (let t1 = h + Sigma1 e + Ch e f g + fst kw + snd kw;
          t2 = Sigma0 a + Maj a b c
      in (t1 + t2, a, b, c, d + t1, e, f, g)))"

definition compress :: "hash_state \<Rightarrow> u8 list \<Rightarrow> hash_state" where
  "compress s block =
     (case s of (a, b, c, d, e, f, g, h) \<Rightarrow>
        (case foldl round256 s (zip K256 (schedule block)) of
           (a', b', c', d', e', f', g', h') \<Rightarrow>
             (a + a', b + b', c + c', d + d', e + e', f + f', g + g', h + h')))"

definition bytes32 :: "u32 \<Rightarrow> u8 list" where
  "bytes32 w = [ucast (drop_bit 24 w), ucast (drop_bit 16 w), ucast (drop_bit 8 w), ucast w]"

definition sha256 :: "u8 list \<Rightarrow> u8 list" where
  "sha256 m = (let p = pad m in
     case foldl compress H256 (chunks (length p div 64) 64 p) of
       (a, b, c, d, e, f, g, h) \<Rightarrow> concat (map bytes32 [a, b, c, d, e, f, g, h]))"


text \<open>\<^verbatim>\<open>digest('hex')\<close>: two lowercase hexadecimal digits for each byte.\<close>

definition hexdigit :: "nat \<Rightarrow> char" where
  "hexdigit n = ''0123456789abcdef'' ! (n mod 16)"

definition digest_hex :: "u8 list \<Rightarrow> string" where
  "digest_hex bs = concat (map (\<lambda>b. [hexdigit (unat b div 16), hexdigit (unat b mod 16)]) bs)"

text \<open>\<^verbatim>\<open>update(data)\<close> hashes the UTF-8 bytes of the string, which are the model's characters.\<close>

definition utf8_bytes :: "string \<Rightarrow> u8 list" where
  "utf8_bytes s = map (\<lambda>c. of_nat (of_char c)) s"

subsection \<open>\<^verbatim>\<open>Date.prototype.toISOString\<close>\<close>

text \<open>A \<^verbatim>\<open>Date\<close> holds a time value or is an Invalid Date (\<open>None\<close>).\<close>

type_synonym Date = "timestamp option"

fun decimal :: "nat \<Rightarrow> string" where
  "decimal n = (if n < 10 then [char_of (48 + n)]
                else decimal (n div 10) @ [char_of (48 + n mod 10)])"

definition padStart0 :: "nat \<Rightarrow> string \<Rightarrow> string" where
  "padStart0 w s = replicate (w - length s) (CHR ''0'') @ s"

text \<open>Year, month and day of the proleptic Gregorian calendar from the day number.\<close>

definition civil_from_days :: "int \<Rightarrow> int \<times> int \<times> int" where
  "civil_from_days days =
     (let z = days + 719468;
          era = z div 146097;
          doe = z - era * 146097;
          yoe = (doe - doe div 1460 + doe div 36524 - doe div 146096) div 365;
          doy = doe - (365 * yoe + yoe div 4 - yoe div 100);
          mp = (5 * doy + 2) div 153;
          dd = doy - (153 * mp + 2) div 5 + 1;
          mm = (if mp < 10 then mp + 3 else mp - 9);
          yy = yoe + era * 400 + (if mm \<le> 2 then 1 else 0)
      in (yy, mm, dd))"

definition iso_year :: "int \<Rightarrow> string" where
  "iso_year y = (if 0 \<le> y \<and> y \<le> 9999 then padStart0 4 (decimal (nat y))
                 else (if y < 0 then ''-'' else ''+'') @ padStart0 6 (decimal (nat \<bar>y\<bar>)))"

definition iso_string :: "timestamp \<Rightarrow> string" where
  "iso_string t =
     (let days = t div ms_per_day;
          ms = t mod ms_per_day
      in case civil_from_days days of
           (yy, mm, dd) \<Rightarrow>
             iso_year yy @ ''-'' @ padStart0 2 (decimal (nat mm)) @ ''-''
               @ padStart0 2 (decimal (nat dd)) @ ''T''
               @ padStart0 2 (decimal (nat (ms div 3600000))) @ '':''
               @ padStart0 2 (decimal (nat (ms div 60000 mod 60))) @ '':''
               @ padStart0 2 (decimal (nat (ms div 1000 mod 60))) @ ''.''
               @ padStart0 3 (decimal (nat (ms mod 1000))) @ ''Z'')"

definition toISOString :: "Date \<Rightarrow> error + string" where
  "toISOString d = (case d of None \<Rightarrow> Inl RangeError | Some t \<Rightarrow> Inr (iso_string t))"

subsection \<open>generateEventRef (types/index.ts)\<close>

definition generateEventRef :: "string \<Rightarrow> string \<Rightarrow> string \<Rightarrow> Date \<Rightarrow> error + string" where
  "generateEventRef sport' homeTeam awayTeam eventDate =
     (case toISOString eventDate of
        Inl e \<Rightarrow> Inl e
      | Inr isoTimestamp \<Rightarrow>
          Inr (digest_hex (sha256 (utf8_bytes
                 (sport' @ ''|'' @ homeTeam @ ''|'' @ awayTeam @ ''|'' @ isoTimestamp)))))"

text \<open>
  The identity hash in the words of the specification: the fields joined by a pipe,
  hashed with SHA-256, written as hexadecimal digits.
\<close>

definition pipe_joined :: "string list \<Rightarrow> string" where
  "pipe_joined xs = concat (case xs of [] \<Rightarrow> [] | x # r \<Rightarrow> x # map (\<lambda>y. ''|'' @ y) r)"

definition spec_event_ref :: "string \<Rightarrow> string \<Rightarrow> string \<Rightarrow> string \<Rightarrow> string" where
  "spec_event_ref sport' homeTeam awayTeam isoTimestamp =
     digest_hex (sha256 (utf8_bytes (pipe_joined [sport', homeTeam, awayTeam, isoTimestamp])))"

section \<open>JavaScript values\<close>

text \<open>
  Numbers that count pages and rows are integers in the model; JavaScript holds them as
  doubles, which agree with the integers below \<open>2^53\<close>. A division can leave the
  integers, so its result is a \<open>number\<close>.
\<close>

datatype number = Finite int | PosInfinity | NaN

text \<open>A string in a condition (\<^verbatim>\<open>if (filters.sport)\<close>): \<^verbatim>\<open>undefined\<close> and \<^verbatim>\<open>''\<close> are falsy.\<close>

definition truthy :: "string option \<Rightarrow> bool" where
  "truthy s = (case s of None \<Rightarrow> False | Some v \<Rightarrow> v \<noteq> [])"

text \<open>A destructuring default (\<^verbatim>\<open>page = '1'\<close>) applies when the key is \<^verbatim>\<open>undefined\<close>.\<close>

definition default_to :: "string option \<Rightarrow> string \<Rightarrow> string" where
  "default_to s dflt = (case s of None \<Rightarrow> dflt | Some v \<Rightarrow> v)"

text \<open>\<^verbatim>\<open>if (x) filters.x = f(x)\<close>: the key is set only for a truthy string.\<close>

definition if_truthy :: "string option \<Rightarrow> (string \<Rightarrow> 'a) \<Rightarrow> 'a option" where
  "if_truthy s f = (case s of None \<Rightarrow> None | Some v \<Rightarrow> if v = [] then None else Some (f v))"

text \<open>
  \<^verbatim>\<open>parseInt(s, 10)\<close>: leading white space is skipped (the ASCII white space characters
  in the model), then an optional sign and the longest run of decimal digits are read;
  \<open>None\<close> is \<^verbatim>\<open>NaN\<close>.
\<close>

definition isWhiteSpace :: "char \<Rightarrow> bool" where
  "isWhiteSpace c = ((of_char c :: nat) \<in> set [9, 10, 11, 12, 13, 32])"

definition isDigit :: "char \<Rightarrow> bool" where
  "isDigit c = (48 \<le> (of_char c :: nat) \<and> (of_char c :: nat) \<le> 57)"

definition digits_value :: "string \<Rightarrow> nat" where
  "digits_value ds = foldl (\<lambda>a c. 10 * a + (of_char c - 48)) 0 ds"

definition parseInt :: "string \<Rightarrow> int option" where
  "parseInt s =
     (let s1 = dropWhile isWhiteSpace s;
          sign = (if take 1 s1 = ''-'' then - 1 else 1);
          s2 = (if take 1 s1 = ''-'' \<or> take 1 s1 = ''+'' then drop 1 s1 else s1);
          ds = takeWhile isDigit s2
      in if ds = [] then None else Some (sign * int (digits_value ds)))"

text \<open>\<^verbatim>\<open>n || dflt\<close> on a number: \<^verbatim>\<open>NaN\<close> and \<open>0\<close> are falsy.\<close>

definition or_default :: "int option \<Rightarrow> int \<Rightarrow> int" where
  "or_default n dflt = (case n of None \<Rightarrow> dflt | Some v \<Rightarrow> if v = 0 then dflt else v)"

text \<open>\<^verbatim>\<open>Math.ceil(total / limit)\<close>.\<close>

definition Math_ceil_div :: "nat \<Rightarrow> int \<Rightarrow> number" where
  "Math_ceil_div n lmt =
     (if lmt = 0 then (if n = 0 then NaN else PosInfinity)
      else Finite \<lceil>(of_nat n :: rat) / of_int lmt\<rceil>)"

section \<open>List queries\<close>

record PaginationParams =
  page :: int
  limit :: int
  offset :: int

text \<open>The \<^verbatim>\<open>pagination\<close> object of a \<^verbatim>\<open>PaginatedResponse\<close>.\<close>

record Pagination =
  resp_page :: int
  resp_limit :: int
  total :: nat
  totalPages :: number

record 'a PaginatedResponse =
  data :: "'a list"
  pagination :: Pagination

text \<open>The filter keys both repositories share, then those of each.\<close>

record CommonFilters =
  f_sport :: "string option"
  f_league :: "string option"
  f_team :: "string option"
  f_startDate :: "Date option"
  f_endDate :: "Date option"

record EventFilters = CommonFilters +
  f_status :: "string option"
  f_when :: "string option"
  f_includePredictions :: "bool option"

record PredictionFilters = CommonFilters +
  f_predictionType :: "string option"
  f_minConfidence :: "rat option"
  f_includeArchived :: "bool option"

text \<open>\<^verbatim>\<open>if (filters.x) query += ' AND col = $n'\<close>.\<close>

definition eq_filter :: "string option \<Rightarrow> string \<Rightarrow> bool" where
  "eq_filter f v = (if truthy f then f = Some v else True)"

text \<open>
  A \<^verbatim>\<open>Date\<close> object is truthy even when it is an Invalid Date; the driver then sends a
  text that the store rejects, and the query fails.
\<close>

definition dates_ok :: "'a CommonFilters_scheme \<Rightarrow> bool" where
  "dates_ok f = (f_startDate f \<noteq> Some None \<and> f_endDate f \<noteq> Some None)"

definition date_from :: "Date option \<Rightarrow> timestamp \<Rightarrow> bool" where
  "date_from f t = (case f of Some (Some s) \<Rightarrow> s \<le> t | _ \<Rightarrow> True)"

definition date_until :: "Date option \<Rightarrow> timestamp \<Rightarrow> bool" where
  "date_until f t = (case f of Some (Some s) \<Rightarrow> t \<le> s | _ \<Rightarrow> True)"

definition common_where :: "'a CommonFilters_scheme \<Rightarrow> Event \<Rightarrow> bool" where
  "common_where f e =
     (eq_filter (f_sport f) (sport e)
      \<and> eq_filter (f_league f) (league e)
      \<and> (if truthy (f_team f) then f_team f = Some (home_team e) \<or> f_team f = Some (away_team e)
          else True)
      \<and> date_from (f_startDate f) (event_date e)
      \<and> date_until (f_endDate f) (event_date e))"

text \<open>\<^verbatim>\<open>LIMIT $n OFFSET $m\<close>; the store rejects a negative limit or offset.\<close>

definition limit_offset :: "int \<Rightarrow> int \<Rightarrow> 'a list \<Rightarrow> error + 'a list" where
  "limit_offset lmt off rows =
     (if lmt < 0 \<or> off < 0 then Inl StorageError
      else Inr (take (nat lmt) (drop (nat off) rows)))"

subsection \<open>EventRepository.findAll\<close>

text \<open>An event as the list returns it, with its latest prediction nested.\<close>

record EventWithPrediction = Event +
  prediction :: "Prediction option"
  winner :: "string option"

text \<open>
  The \<^verbatim>\<open>WHERE\<close> clause: \<^verbatim>\<open>e.is_archived = false\<close> is part of the base query, the other
  conjuncts are appended for the filters that are set.
\<close>

definition events_where :: "timestamp \<Rightarrow> EventFilters \<Rightarrow> Event \<Rightarrow> bool" where
  "events_where now f e =
     (is_archived e = False
      \<and> common_where f e
      \<and> eq_filter (f_status f) (status e)
      \<and> (if f_when f = Some ''upcoming'' then now \<le> event_date e
          else if f_when f = Some ''past'' then event_date e < now
          else True))"

text \<open>
  \<^verbatim>\<open>ORDER BY e.event_date ASC\<close> for \<^verbatim>\<open>upcoming\<close>, \<^verbatim>\<open>ORDER BY e.event_date DESC\<close> otherwise.
  The store leaves the order of rows with equal keys open; the model keeps them in table
  order, which is one of the orders the store may return.
\<close>

definition order_events :: "string option \<Rightarrow> Event list \<Rightarrow> Event list" where
  "order_events w rows =
     (if w = Some ''upcoming'' then sort_key event_date rows
      else if w = Some ''past'' then sort_key (\<lambda>e. - event_date e) rows
      else sort_key (\<lambda>e. - event_date e) rows)"

text \<open>
  \<^verbatim>\<open>LEFT JOIN LATERAL (SELECT ... FROM predictions p WHERE p.event_id = e.id
    ORDER BY p.created_at DESC LIMIT 1) lp ON true\<close>.
\<close>

definition latest_prediction :: "db \<Rightarrow> Event \<Rightarrow> Prediction option" where
  "latest_prediction d e =
     rows0 (sort_key (\<lambda>p. - pr_created_at p)
              (filter (\<lambda>p. event_id p = ev_id e) (predictions d)))"

definition with_prediction :: "db \<Rightarrow> Event \<Rightarrow> EventWithPrediction" where
  "with_prediction d e =
     \<lparr>event_ref = event_ref e, sport = sport e, league = league e, home_team = home_team e,
      away_team = away_team e, event_date = event_date e, venue = venue e, status = status e,
      ev_id = ev_id e, ev_created_at = ev_created_at e, ev_updated_at = ev_updated_at e,
      is_archived = is_archived e,
      prediction = latest_prediction d e,
      winner = map_option predicted_value (latest_prediction d e)\<rparr>"

definition EventRepository_findAll ::
  "timestamp \<Rightarrow> db \<Rightarrow> EventFilters \<Rightarrow> PaginationParams
     \<Rightarrow> error + (EventWithPrediction list \<times> nat)" where
  "EventRepository_findAll now d filters pg =
     (if \<not> dates_ok filters then Inl StorageError
      else
        (let matching = filter (events_where now filters) (events d);
             count = length matching
         in case limit_offset (limit pg) (offset pg) (order_events (f_when filters) matching) of
              Inl err \<Rightarrow> Inl err
            | Inr rows \<Rightarrow> Inr (map (with_prediction d) rows, count)))"

subsection \<open>EventService.getEvents\<close>

definition getEvents ::
  "timestamp \<Rightarrow> db \<Rightarrow> EventFilters \<Rightarrow> PaginationParams
     \<Rightarrow> error + EventWithPrediction PaginatedResponse" where
  "getEvents now d filters pg =
     (case EventRepository_findAll now d filters pg of
        Inl err \<Rightarrow> Inl err
      | Inr (evs, n) \<Rightarrow>
          Inr \<lparr>data = map (\<lambda>e. e) evs,
               pagination = \<lparr>resp_page = page pg, resp_limit = limit pg, total = n,
                              totalPages = Math_ceil_div n (limit pg)\<rparr>\<rparr>)"

subsection \<open>PredictionRepository.findAll\<close>

text \<open>\<^verbatim>\<open>FROM predictions p INNER JOIN events e ON p.event_id = e.id\<close>.\<close>

definition predictions_join_events :: "db \<Rightarrow> (Prediction \<times> Event) list" where
  "predictions_join_events d =
     concat (map (\<lambda>p. map (\<lambda>e. (p, e)) (filter (\<lambda>e. event_id p = ev_id e) (events d)))
               (predictions d))"

definition predictions_where :: "PredictionFilters \<Rightarrow> Prediction \<times> Event \<Rightarrow> bool" where
  "predictions_where f pe =
     (case pe of (p, e) \<Rightarrow>
        (if f_includeArchived f = Some True then True else is_archived e = False)
        \<and> common_where f e
        \<and> eq_filter (f_predictionType f) (prediction_type p)
        \<and> (case f_minConfidence f of None \<Rightarrow> True | Some m \<Rightarrow> m \<le> confidence_score p))"

text \<open>\<^verbatim>\<open>ORDER BY e.event_date DESC, p.created_at DESC\<close>.\<close>

definition order_predictions :: "(Prediction \<times> Event) list \<Rightarrow> (Prediction \<times> Event) list" where
  "order_predictions rows = sort_key (\<lambda>pe. (- event_date (snd pe), - pr_created_at (fst pe))) rows"

text \<open>The joined rows of the page, before the \<^verbatim>\<open>SELECT\<close> list keeps the prediction's columns.\<close>

definition PredictionRepository_findAll_rows ::
  "db \<Rightarrow> PredictionFilters \<Rightarrow> PaginationParams \<Rightarrow> error + ((Prediction \<times> Event) list \<times> nat)" where
  "PredictionRepository_findAll_rows d filters pg =
     (if \<not> dates_ok filters then Inl StorageError
      else
        (let matching = filter (predictions_where filters) (predictions_join_events d);
             count = length matching
         in case limit_offset (limit pg) (offset pg) (order_predictions matching) of
              Inl err \<Rightarrow> Inl err
            | Inr rows \<Rightarrow> Inr (rows, count)))"

definition PredictionRepository_findAll ::
  "db \<Rightarrow> PredictionFilters \<Rightarrow> PaginationParams \<Rightarrow> error + (Prediction list \<times> nat)" where
  "PredictionRepository_findAll d filters pg =
     (case PredictionRepository_findAll_rows d filters pg of
        Inl err \<Rightarrow> Inl err
      | Inr (rows, count) \<Rightarrow> Inr (map fst rows, count))"

section \<open>HTTP handlers\<close>

text \<open>
  \<^verbatim>\<open>req.query\<close>: each key is a string or absent. The handlers take \<^verbatim>\<open>new Date(string)\<close>
  and \<^verbatim>\<open>parseFloat\<close> as parameters (\<open>None\<close> is an Invalid Date, respectively \<^verbatim>\<open>NaN\<close> or an
  infinity, which the handler rejects like \<^verbatim>\<open>NaN\<close>).
\<close>

record ListQuery =
  q_sport :: "string option"
  q_league :: "string option"
  q_team :: "string option"
  q_startDate :: "string option"
  q_endDate :: "string option"
  q_page :: "string option"
  q_limit :: "string option"

record EventsQuery = ListQuery +
  q_status :: "string option"
  q_when :: "string option"
  q_includePredictions :: "string option"

record PredictionsQuery = ListQuery +
  q_predictionType :: "string option"
  q_minConfidence :: "string option"
  q_includeArchived :: "string option"

text \<open>
  \<^verbatim>\<open>const pageNum = Math.max(1, parseInt(page, 10) || 1);\<close>
  \<^verbatim>\<open>const limitNum = Math.min(100, Math.max(1, parseInt(limit, 10) || 20));\<close>
  \<^verbatim>\<open>const offset = (pageNum - 1) * limitNum;\<close> (the same three lines in both handlers).
\<close>

definition parse_pagination :: "string option \<Rightarrow> string option \<Rightarrow> PaginationParams" where
  "parse_pagination pageq limitq =
     (let pageNum = max 1 (or_default (parseInt (default_to pageq ''1'')) 1);
          limitNum = min 100 (max 1 (or_default (parseInt (default_to limitq ''20'')) 20))
      in \<lparr>page = pageNum, limit = limitNum, offset = (pageNum - 1) * limitNum\<rparr>)"

subsection \<open>GET /api/events\<close>

definition events_filters :: "(string \<Rightarrow> Date) \<Rightarrow> EventsQuery \<Rightarrow> EventFilters" where
  "events_filters Date_parse q =
     \<lparr>f_sport = if_truthy (q_sport q) (\<lambda>s. s),
      f_league = if_truthy (q_league q) (\<lambda>s. s),
      f_team = if_truthy (q_team q) (\<lambda>s. s),
      f_startDate = if_truthy (q_startDate q) Date_parse,
      f_endDate = if_truthy (q_endDate q) Date_parse,
      f_status = if_truthy (q_status q) (\<lambda>s. s),
      f_when = Some (default_to (q_when q) ''all''),
      f_includePredictions = Some (default_to (q_includePredictions q) ''true'' \<noteq> ''false'')\<rparr>"

definition GET_api_events ::
  "(string \<Rightarrow> Date) \<Rightarrow> timestamp \<Rightarrow> db \<Rightarrow> EventsQuery
     \<Rightarrow> error + EventWithPrediction PaginatedResponse" where
  "GET_api_events Date_parse now d q =
     (let pg = parse_pagination (q_page q) (q_limit q)
      in if default_to (q_when q) ''all'' \<notin> set [''upcoming'', ''past'', ''all'']
         then Inl (AppError 400 ''Invalid value for when parameter'')
         else getEvents now d (events_filters Date_parse q) pg)"

subsection \<open>GET /api/predictions\<close>

definition predictions_filters ::
  "(string \<Rightarrow> Date) \<Rightarrow> (string \<Rightarrow> rat option) \<Rightarrow> PredictionsQuery
     \<Rightarrow> error + PredictionFilters" where
  "predictions_filters Date_parse parseFloat q =
     (if truthy (q_predictionType q)
         \<and> default_to (q_predictionType q) [] \<notin> set [''WINNER'', ''SCORE'', ''OVER_UNDER'']
      then Inl (AppError 400 ''Invalid prediction type'')
      else if truthy (q_minConfidence q)
              \<and> (case parseFloat (default_to (q_minConfidence q) []) of
                    None \<Rightarrow> True | Some m \<Rightarrow> m < 0 \<or> 100 < m)
      then Inl (AppError 400 ''Invalid confidence score'')
      else Inr \<lparr>f_sport = if_truthy (q_sport q) (\<lambda>s. s),
                f_league = if_truthy (q_league q) (\<lambda>s. s),
                f_team = if_truthy (q_team q) (\<lambda>s. s),
                f_startDate = if_truthy (q_startDate q) Date_parse,
                f_endDate = if_truthy (q_endDate q) Date_parse,
                f_predictionType = if_truthy (q_predictionType q) (\<lambda>s. s),
                f_minConfidence =
                  (if truthy (q_minConfidence q)
                   then parseFloat (default_to (q_minConfidence q) []) else None),
                f_includeArchived =
                  Some (default_to (q_includeArchived q) ''false'' = ''true'')\<rparr>)"

definition GET_api_predictions ::
  "(string \<Rightarrow> Date) \<Rightarrow> (string \<Rightarrow> rat option) \<Rightarrow> db \<Rightarrow> PredictionsQuery
     \<Rightarrow> error + Prediction PaginatedResponse" where
  "GET_api_predictions Date_parse parseFloat d q =
     (let pg = parse_pagination (q_page q) (q_limit q)
      in case predictions_filters Date_parse parseFloat q of
           Inl err \<Rightarrow> Inl err
         | Inr filters \<Rightarrow>
             (case PredictionRepository_findAll d filters pg of
                Inl err \<Rightarrow> Inl err
              | Inr (preds, n) \<Rightarrow>
                  Inr \<lparr>data = preds,
                       pagination = \<lparr>resp_page = page pg, resp_limit = limit pg, total = n,
                                      totalPages = Math_ceil_div n (limit pg)\<rparr>\<rparr>))"

section \<open>Partial updates\<close>

subsection \<open>EventRepository.update\<close>

text \<open>
  \<^verbatim>\<open>Partial<Event>\<close>: every key may be absent (\<open>None\<close>, JavaScript's \<^verbatim>\<open>undefined\<close>).
  \<^verbatim>\<open>venue\<close> may also be present and \<^verbatim>\<open>null\<close>.
\<close>

record EventPatch =
  p_id :: "nat option"
  p_event_ref :: "string option"
  p_sport :: "string option"
  p_league :: "string option"
  p_home_team :: "string option"
  p_away_team :: "string option"
  p_event_date :: "Date option"
  p_venue :: "string option option"
  p_status :: "string option"
  p_created_at :: "Date option"
  p_updated_at :: "Date option"
  p_is_archived :: "bool option"

text \<open>One \<^verbatim>\<open>column = $n\<close> of the \<^verbatim>\<open>SET\<close> clause.\<close>

datatype event_assignment =
    Set_event_ref string
  | Set_sport string
  | Set_league string
  | Set_home_team string
  | Set_away_team string
  | Set_event_date Date
  | Set_venue "string option"
  | Set_status string
  | Set_is_archived bool

text \<open>
  \<^verbatim>\<open>Object.entries(event).forEach(([key, value]) => { if (value !== undefined && key !== 'id'
    && key !== 'created_at' && key !== 'updated_at') { fields.push(...); values.push(value); } })\<close>
\<close>

definition event_patch_fields :: "EventPatch \<Rightarrow> event_assignment list" where
  "event_patch_fields p =
     (case p_event_ref p of None \<Rightarrow> [] | Some v \<Rightarrow> [Set_event_ref v])
     @ (case p_sport p of None \<Rightarrow> [] | Some v \<Rightarrow> [Set_sport v])
     @ (case p_league p of None \<Rightarrow> [] | Some v \<Rightarrow> [Set_league v])
     @ (case p_home_team p of None \<Rightarrow> [] | Some v \<Rightarrow> [Set_home_team v])
     @ (case p_away_team p of None \<Rightarrow> [] | Some v \<Rightarrow> [Set_away_team v])
     @ (case p_event_date p of None \<Rightarrow> [] | Some v \<Rightarrow> [Set_event_date v])
     @ (case p_venue p of None \<Rightarrow> [] | Some v \<Rightarrow> [Set_venue v])
     @ (case p_status p of None \<Rightarrow> [] | Some v \<Rightarrow> [Set_status v])
     @ (case p_is_archived p of None \<Rightarrow> [] | Some v \<Rightarrow> [Set_is_archived v])"

fun assign_event :: "event_assignment \<Rightarrow> Event \<Rightarrow> Event" where
  "assign_event (Set_event_ref v) e = e\<lparr>event_ref := v\<rparr>"
| "assign_event (Set_sport v) e = e\<lparr>sport := v\<rparr>"
| "assign_event (Set_league v) e = e\<lparr>league := v\<rparr>"
| "assign_event (Set_home_team v) e = e\<lparr>home_team := v\<rparr>"
| "assign_event (Set_away_team v) e = e\<lparr>away_team := v\<rparr>"
| "assign_event (Set_event_date v) e = (case v of None \<Rightarrow> e | Some t \<Rightarrow> e\<lparr>event_date := t\<rparr>)"
| "assign_event (Set_venue v) e = e\<lparr>venue := v\<rparr>"
| "assign_event (Set_status v) e = e\<lparr>status := v\<rparr>"
| "assign_event (Set_is_archived v) e = e\<lparr>is_archived := v\<rparr>"

text \<open>
  \<^verbatim>\<open>UPDATE events SET ... WHERE id = $n RETURNING *\<close>. The statement fails on an Invalid
  Date and when it would store an \<^verbatim>\<open>event_ref\<close> twice; the trigger refreshes \<^verbatim>\<open>updated_at\<close>
  of the rows it updates.
\<close>

definition update_events_set ::
  "timestamp \<Rightarrow> db \<Rightarrow> event_assignment list \<Rightarrow> nat \<Rightarrow> error + (db \<times> Event list)" where
  "update_events_set now d flds i =
     (let upd = (\<lambda>e. (foldl (\<lambda>r a. assign_event a r) e flds)\<lparr>ev_updated_at := now\<rparr>);
          rows = map (\<lambda>e. if ev_id e = i then upd e else e) (events d)
      in if Set_event_date None \<in> set flds then Inl StorageError
         else if \<not> distinct (map event_ref rows) then Inl StorageError
         else Inr (d\<lparr>events := rows\<rparr>, filter (\<lambda>e. ev_id e = i) rows))"

definition EventRepository_update ::
  "timestamp \<Rightarrow> db \<Rightarrow> nat \<Rightarrow> EventPatch \<Rightarrow> db \<times> (error + Event option)" where
  "EventRepository_update now d i event =
     (let flds = event_patch_fields event
      in if length flds = 0 then (d, Inr None)
         else (case update_events_set now d flds i of
                 Inl err \<Rightarrow> (d, Inl err)
               | Inr (d1, rows) \<Rightarrow> (d1, Inr (rows0 rows))))"

text \<open>\<^verbatim>\<open>SELECT * FROM events WHERE id = $1\<close>, as \<^verbatim>\<open>findById\<close> without predictions runs it.\<close>

definition findById :: "db \<Rightarrow> nat \<Rightarrow> Event option" where
  "findById d i = rows0 (filter (\<lambda>e. ev_id e = i) (events d))"

subsection \<open>PredictionRepository.update\<close>

text \<open>
  \<^verbatim>\<open>Partial<Prediction>\<close>. The type still lists \<^verbatim>\<open>is_archived\<close>, a column that migration 003
  dropped: a statement that sets it fails.
\<close>

record PredictionPatch =
  pp_id :: "nat option"
  pp_event_id :: "nat option"
  pp_prediction_type :: "string option"
  pp_predicted_value :: "string option"
  pp_confidence_score :: "rat option"
  pp_reasoning :: "string option"
  pp_model_version :: "string option"
  pp_created_at :: "Date option"
  pp_updated_at :: "Date option"
  pp_is_archived :: "bool option"

datatype prediction_assignment =
    Set_event_id nat
  | Set_prediction_type string
  | Set_predicted_value string
  | Set_confidence_score rat
  | Set_reasoning string
  | Set_model_version string
  | Set_prediction_is_archived bool

definition prediction_patch_fields :: "PredictionPatch \<Rightarrow> prediction_assignment list" where
  "prediction_patch_fields p =
     (case pp_event_id p of None \<Rightarrow> [] | Some v \<Rightarrow> [Set_event_id v])
     @ (case pp_prediction_type p of None \<Rightarrow> [] | Some v \<Rightarrow> [Set_prediction_type v])
     @ (case pp_predicted_value p of None \<Rightarrow> [] | Some v \<Rightarrow> [Set_predicted_value v])
     @ (case pp_confidence_score p of None \<Rightarrow> [] | Some v \<Rightarrow> [Set_confidence_score v])
     @ (case pp_reasoning p of None \<Rightarrow> [] | Some v \<Rightarrow> [Set_reasoning v])
     @ (case pp_model_version p of None \<Rightarrow> [] | Some v \<Rightarrow> [Set_model_version v])
     @ (case pp_is_archived p of None \<Rightarrow> [] | Some v \<Rightarrow> [Set_prediction_is_archived v])"

fun assign_prediction :: "prediction_assignment \<Rightarrow> Prediction \<Rightarrow> Prediction" where
  "assign_prediction (Set_event_id v) r = r\<lparr>event_id := v\<rparr>"
| "assign_prediction (Set_prediction_type v) r = r\<lparr>prediction_type := v\<rparr>"
| "assign_prediction (Set_predicted_value v) r = r\<lparr>predicted_value := v\<rparr>"
| "assign_prediction (Set_confidence_score v) r = r\<lparr>confidence_score := v\<rparr>"
| "assign_prediction (Set_reasoning v) r = r\<lparr>reasoning := v\<rparr>"
| "assign_prediction (Set_model_version v) r = r\<lparr>model_version := v\<rparr>"
| "assign_prediction (Set_prediction_is_archived v) r = r"

fun is_dropped_column :: "prediction_assignment \<Rightarrow> bool" where
  "is_dropped_column (Set_prediction_is_archived v) = True"
| "is_dropped_column _ = False"

text \<open>
  \<^verbatim>\<open>UPDATE predictions SET ... WHERE id = $n RETURNING *\<close>. The statement fails when it
  names the dropped column, when a row would refer to no event (the foreign key) and when
  two rows would share an \<^verbatim>\<open>event_id\<close> (the unique index of migration 002).
\<close>

definition update_predictions_set ::
  "timestamp \<Rightarrow> db \<Rightarrow> prediction_assignment list \<Rightarrow> nat
     \<Rightarrow> error + (db \<times> Prediction list)" where
  "update_predictions_set now d flds i =
     (let upd = (\<lambda>r. (foldl (\<lambda>r a. assign_prediction a r) r flds)\<lparr>pr_updated_at := now\<rparr>);
          rows = map (\<lambda>r. if pr_id r = i then upd r else r) (predictions d)
      in if list_ex is_dropped_column flds then Inl StorageError
         else if list_ex (\<lambda>r. pr_id r = i \<and> event_id r \<notin> set (map ev_id (events d))) rows
         then Inl StorageError
         else if \<not> distinct (map event_id rows) then Inl StorageError
         else Inr (d\<lparr>predictions := rows\<rparr>, filter (\<lambda>r. pr_id r = i) rows))"

definition PredictionRepository_update ::
  "timestamp \<Rightarrow> db \<Rightarrow> nat \<Rightarrow> PredictionPatch \<Rightarrow> db \<times> (error + Prediction option)" where
  "PredictionRepository_update now d i prediction' =
     (let flds = prediction_patch_fields prediction'
      in if length flds = 0 then (d, Inr None)
         else (case update_predictions_set now d flds i of
                 Inl err \<Rightarrow> (d, Inl err)
               | Inr (d1, rows) \<Rightarrow> (d1, Inr (rows0 rows))))"

section \<open>Batch ingestion (services/dataIngestionService.ts)\<close>

record Participant =
  name :: string
  role :: "string option"

text \<open>A record of the events file, after \<^verbatim>\<open>JSON.parse\<close>.\<close>

record EventData =
  d_event_ref :: string
  d_sport_type :: "string option"
  d_league :: "string option"
  d_home_team :: "string option"
  d_away_team :: "string option"
  d_event_date :: "string option"
  d_scheduled_at :: "string option"
  d_participants :: "Participant list option"
  d_event_name :: "string option"
  d_location :: "string option"
  d_venue :: "string option"
  d_event_status :: "string option"
  d_status :: "string option"

text \<open>\<^verbatim>\<open>a ?? b\<close>: \<open>b\<close> when \<open>a\<close> is \<^verbatim>\<open>undefined\<close> or \<^verbatim>\<open>null\<close>.\<close>

definition nullish :: "'a option \<Rightarrow> 'a option \<Rightarrow> 'a option" where
  "nullish a b = (case a of None \<Rightarrow> b | Some v \<Rightarrow> Some v)"

text \<open>\<^verbatim>\<open>toLowerCase\<close> and \<^verbatim>\<open>toUpperCase\<close>, on the ASCII letters.\<close>

definition toLowerCase :: "string \<Rightarrow> string" where
  "toLowerCase s = map (\<lambda>c. if 65 \<le> (of_char c :: nat) \<and> (of_char c :: nat) \<le> 90
                             then char_of ((of_char c :: nat) + 32) else c) s"

definition toUpperCase :: "string \<Rightarrow> string" where
  "toUpperCase s = map (\<lambda>c. if 97 \<le> (of_char c :: nat) \<and> (of_char c :: nat) \<le> 122
                             then char_of ((of_char c :: nat) - 32) else c) s"

text \<open>\<^verbatim>\<open>s.split(sep)\<close> for a separator that is not empty.\<close>

function split_on :: "string \<Rightarrow> string \<Rightarrow> string \<Rightarrow> string list" where
  "split_on sep acc s =
     (if s = [] then [acc]
      else if sep \<noteq> [] \<and> take (length sep) s = sep
           then acc # split_on sep [] (drop (length sep) s)
      else split_on sep (acc @ [hd s]) (tl s))"
  by pat_completeness auto
termination
  by (relation "measure (\<lambda>(sep, acc, s). length s)") auto

definition split :: "string \<Rightarrow> string \<Rightarrow> string list" where
  "split s sep = split_on sep [] s"

text \<open>\<^verbatim>\<open>xs?.[i]\<close>: \<^verbatim>\<open>undefined\<close> beyond the end.\<close>

definition at_index :: "'a list \<Rightarrow> nat \<Rightarrow> 'a option" where
  "at_index xs i = (if i < length xs then Some (xs ! i) else None)"

definition find_role :: "string \<Rightarrow> Participant list \<Rightarrow> string option" where
  "find_role r ps =
     map_option name
       (List.find (\<lambda>p. toLowerCase (case role p of None \<Rightarrow> [] | Some v \<Rightarrow> v) = r) ps)"

definition ingest_team :: "EventData \<Rightarrow> string option \<Rightarrow> string \<Rightarrow> nat \<Rightarrow> string" where
  "ingest_team eventData explicit r i =
     (case nullish explicit
             (nullish (case d_participants eventData of None \<Rightarrow> None | Some ps \<Rightarrow> find_role r ps)
                (nullish (case d_participants eventData of None \<Rightarrow> None
                          | Some ps \<Rightarrow> map_option name (at_index ps i))
                   (case d_event_name eventData of None \<Rightarrow> None
                    | Some n \<Rightarrow> at_index (split n '' vs '') i))) of
        None \<Rightarrow> ''unknown''
      | Some v \<Rightarrow> v)"

definition ingest_status :: "EventData \<Rightarrow> string" where
  "ingest_status eventData =
     (case d_status eventData of
        Some v \<Rightarrow> v
      | None \<Rightarrow>
          (if truthy (d_event_status eventData)
           then (if toLowerCase (default_to (d_event_status eventData) []) = ''upcoming''
                 then ''SCHEDULED''
                 else toUpperCase (default_to (d_event_status eventData) []))
           else ''SCHEDULED''))"

text \<open>
  The record that \<^verbatim>\<open>loadEvents\<close> hands to \<^verbatim>\<open>eventRepository.create\<close> for an entry of the
  file whose date is the instant \<open>t\<close>. The call of \<^verbatim>\<open>generateEventRef\<close> is commented out
  in the source; \<^verbatim>\<open>event_ref\<close> is the entry's own.
\<close>

definition ingest_fields :: "EventData \<Rightarrow> timestamp \<Rightarrow> EventFields" where
  "ingest_fields eventData t =
     (let homeTeam = ingest_team eventData (d_home_team eventData) ''home'' 0;
          awayTeam = ingest_team eventData (d_away_team eventData) ''away'' 1;
          sport' = default_to (d_sport_type eventData) ''unknown'';
          league' = default_to
                      (nullish (d_league eventData)
                         (nullish (d_location eventData) (d_event_name eventData))) []
      in \<lparr>event_ref = d_event_ref eventData,
          sport = sport',
          league = (if league' = [] then ''NA'' else league'),
          home_team = homeTeam,
          away_team = awayTeam,
          event_date = t,
          venue = nullish (d_venue eventData) (d_location eventData),
          status = ingest_status eventData\<rparr>)"

text \<open>
  The loop of \<^verbatim>\<open>loadEvents\<close> over the entries: an entry without a valid date is skipped;
  reading \<^verbatim>\<open>event.id\<close> of an \<^verbatim>\<open>undefined\<close> result would raise a TypeError.
\<close>

fun loadEvents_loop ::
  "(string \<Rightarrow> Date) \<Rightarrow> timestamp \<Rightarrow> db \<Rightarrow> EventData list \<Rightarrow> Event list
     \<Rightarrow> db \<times> (error + Event list)" where
  "loadEvents_loop Date_parse now d [] createdEvents = (d, Inr createdEvents)"
| "loadEvents_loop Date_parse now d (eventData # rest) createdEvents =
     (case Date_parse (default_to (nullish (d_scheduled_at eventData) (d_event_date eventData)) [])
      of None \<Rightarrow> loadEvents_loop Date_parse now d rest createdEvents
       | Some t \<Rightarrow>
           (case EventRepository_create now d (ingest_fields eventData t) of
              (d1, None) \<Rightarrow> (d1, Inl TypeError)
            | (d1, Some event) \<Rightarrow>
                loadEvents_loop Date_parse now d1 rest (createdEvents @ [event])))"

definition loadEvents ::
  "(string \<Rightarrow> Date) \<Rightarrow> timestamp \<Rightarrow> db \<Rightarrow> EventData list \<Rightarrow> db \<times> (error + Event list)" where
  "loadEvents Date_parse now d events' = loadEvents_loop Date_parse now d events' []"

section \<open>Example data\<close>

definition empty_db :: db where
  "empty_db = \<lparr>events = [], predictions = [], events_id_seq = 0, predictions_id_seq = 0\<rparr>"


definition event_row :: "nat \<Rightarrow> string \<Rightarrow> timestamp \<Rightarrow> timestamp \<Rightarrow> bool \<Rightarrow> Event" where
  "event_row i ref date created archived =
     \<lparr>event_ref = ref, sport = ''Football'', league = ''Premier League'',
      home_team = ''Arsenal'', away_team = ''Chelsea'', event_date = date, venue = None,
      status = ''SCHEDULED'', ev_id = i, ev_created_at = created, ev_updated_at = created,
      is_archived = archived\<rparr>"


definition no_date :: "string \<Rightarrow> Date" where
  "no_date s = None"

definition derby_date_parse :: "string \<Rightarrow> Date" where
  "derby_date_parse s = (if s = ''2026-01-15T15:00:00Z'' then Some 1768489200000 else None)"

definition integer_float :: "string \<Rightarrow> rat option" where
  "integer_float s = map_option of_int (parseInt s)"

definition prediction_row :: "nat \<Rightarrow> nat \<Rightarrow> rat \<Rightarrow> timestamp \<Rightarrow> Prediction" where
  "prediction_row i e c created =
     \<lparr>event_id = e, prediction_type = ''WINNER'', predicted_value = ''Arsenal'',
      confidence_score = c, reasoning = ''form'', model_version = ''v1.0.0'',
      pr_id = i, pr_created_at = created, pr_updated_at = created\<rparr>"

definition list_db :: db where
  "list_db =
     \<lparr>events = [event_row 1 ''a'' 1768489200000 1000 False,
                event_row 2 ''b'' 1768489200000 2000 False,
                event_row 3 ''c'' 1500000000000 3000 True,
                event_row 4 ''d'' 1800000000000 4000 False],
      predictions = [prediction_row 1 1 80 5000,
                     prediction_row 2 3 90 6000,
                     prediction_row 3 2 70 7000],
      events_id_seq = 4, predictions_id_seq = 3\<rparr>"

definition no_event_filters :: EventFilters where
  "no_event_filters =
     \<lparr>f_sport = None, f_league = None, f_team = None, f_startDate = None, f_endDate = None,
      f_status = None, f_when = None, f_includePredictions = None\<rparr>"

definition no_prediction_filters :: PredictionFilters where
  "no_prediction_filters =
     \<lparr>f_sport = None, f_league = None, f_team = None, f_startDate = None, f_endDate = None,
      f_predictionType = None, f_minConfidence = None, f_includeArchived = None\<rparr>"

definition first_page :: PaginationParams where
  "first_page = \<lparr>page = 1, limit = 20, offset = 0\<rparr>"

definition events_query :: "string option \<Rightarrow> string option \<Rightarrow> EventsQuery" where
  "events_query pageq limitq =
     \<lparr>q_sport = None, q_league = None, q_team = None, q_startDate = None, q_endDate = None,
      q_page = pageq, q_limit = limitq, q_status = None, q_when = None,
      q_includePredictions = None\<rparr>"

definition predictions_query :: "string option \<Rightarrow> string option \<Rightarrow> PredictionsQuery" where
  "predictions_query pageq limitq =
     \<lparr>q_sport = None, q_league = None, q_team = None, q_startDate = None, q_endDate = None,
      q_page = pageq, q_limit = limitq, q_predictionType = None, q_minConfidence = None,
      q_includeArchived = None\<rparr>"

definition no_event_patch :: EventPatch where
  "no_event_patch =
     \<lparr>p_id = None, p_event_ref = None, p_sport = None, p_league = None, p_home_team = None,
      p_away_team = None, p_event_date = None, p_venue = None, p_status = None,
      p_created_at = None, p_updated_at = None, p_is_archived = None\<rparr>"

definition no_prediction_patch :: PredictionPatch where
  "no_prediction_patch =
     \<lparr>pp_id = None, pp_event_id = None, pp_prediction_type = None, pp_predicted_value = None,
      pp_confidence_score = None, pp_reasoning = None, pp_model_version = None,
      pp_created_at = None, pp_updated_at = None, pp_is_archived = None\<rparr>"

definition derby_entry :: EventData where
  "derby_entry =
     \<lparr>d_event_ref = ''evt-001'', d_sport_type = Some ''Football'',
      d_league = Some ''Premier League'', d_home_team = Some ''Manchester United'',
      d_away_team = Some ''Liverpool'', d_event_date = Some ''2026-01-15T15:00:00Z'',
      d_scheduled_at = None, d_participants = None, d_event_name = None, d_location = None,
      d_venue = Some ''Old Trafford'', d_event_status = None, d_status = None\<rparr>"

section \<open>Verified properties\<close>

subsection \<open>Identity hasher\<close>

lemma length_sha256: "length (sha256 m) = 32"
  by (simp add: sha256_def Let_def bytes32_def split: prod.split)

lemma length_digest_hex: "length (digest_hex bs) = 2 * length bs"
  by (induction bs) (simp_all add: digest_hex_def)

lemma hexdigit_lower: "hexdigit n \<in> set ''0123456789abcdef''"
  unfolding hexdigit_def by (rule nth_mem) simp

lemma digest_hex_chars: "set (digest_hex bs) \<subseteq> set ''0123456789abcdef''"
  unfolding digest_hex_def using hexdigit_lower by auto

lemma pipe_joined4: "pipe_joined [a, b, c, d] = a @ ''|'' @ b @ ''|'' @ c @ ''|'' @ d"
  by (simp add: pipe_joined_def)

lemma generateEventRef_length:
  "generateEventRef s h a dt = Inr ref \<Longrightarrow> length ref = 64"
  by (auto simp: generateEventRef_def toISOString_def length_digest_hex length_sha256
      split: option.splits)

lemma iso_2026: "iso_string 1768489200000 = ''2026-01-15T15:00:00.000Z''"
  by code_simp

text \<open>
  Claim C5. \<^verbatim>\<open>generateEventRef\<close> is a function of its four arguments (in the embedding it
  is a HOL function, so equal inputs give equal outputs), and for every sport, home team,
  away team and instant its output is the SHA-256 digest of the pipe-joined string
  \<^verbatim>\<open>sport|homeTeam|awayTeam|isoTimestamp\<close>, written as 64 lowercase hexadecimal digits.
  (An Invalid Date makes \<^verbatim>\<open>toISOString\<close> raise a RangeError instead.)
\<close>

theorem generateEventRef_digest:
  "\<exists>h. generateEventRef sport' homeTeam awayTeam (Some t) = Inr h
        \<and> h = spec_event_ref sport' homeTeam awayTeam (iso_string t)
        \<and> length h = 64
        \<and> (\<forall>c \<in> set h. c \<in> set ''0123456789abcdef'')"
proof -
  let ?h = "spec_event_ref sport' homeTeam awayTeam (iso_string t)"
  have run: "generateEventRef sport' homeTeam awayTeam (Some t) = Inr ?h"
    by (simp only: generateEventRef_def toISOString_def spec_event_ref_def pipe_joined4
        option.case sum.case)
  have len: "length ?h = 64"
    by (simp add: spec_event_ref_def length_digest_hex length_sha256)
  have low: "\<forall>c \<in> set ?h. c \<in> set ''0123456789abcdef''"
    unfolding spec_event_ref_def using digest_hex_chars by blast
  from run len low show ?thesis by blast
qed

theorem generateEventRef_digest_witness:
  "\<exists>h. generateEventRef ''Football'' ''Manchester United'' ''Liverpool'' (Some 1768489200000) = Inr h
        \<and> h = spec_event_ref ''Football'' ''Manchester United'' ''Liverpool'' ''2026-01-15T15:00:00.000Z''
        \<and> length h = 64
        \<and> list_all (\<lambda>c. c \<in> set ''0123456789abcdef'') h"
  using generateEventRef_digest [of "''Football''" "''Manchester United''" "''Liverpool''" 1768489200000]
  unfolding iso_2026 list_all_iff by blast

subsection \<open>EventRepository.create\<close>










subsection \<open>Archival sweep\<close>








subsection \<open>Pagination, filters and order of the lists\<close>


lemma limit_offset_subset:
  "limit_offset lmt off rows = Inr page_rows \<Longrightarrow> set page_rows \<subseteq> set rows"
  by (auto simp: limit_offset_def split: if_splits dest: in_set_takeD in_set_dropD)

lemma sorted_wrt_limit_offset:
  assumes "limit_offset lmt off rows = Inr page_rows" and "sorted_wrt R rows"
  shows "sorted_wrt R page_rows"
proof -
  from assms(1) have "page_rows = take (nat lmt) (drop (nat off) rows)"
    by (auto simp: limit_offset_def split: if_splits)
  with assms(2) show ?thesis by (simp add: sorted_wrt_take sorted_wrt_drop)
qed

lemma set_order_events: "set (order_events w rows) = set rows"
  by (simp add: order_events_def)

lemma set_order_predictions: "set (order_predictions rows) = set rows"
  by (simp add: order_predictions_def)

lemma order_events_sorted:
  "if w = Some ''upcoming''
   then sorted_wrt (\<lambda>a b. event_date a \<le> event_date b) (order_events w rows)
   else sorted_wrt (\<lambda>a b. event_date b \<le> event_date a) (order_events w rows)"
proof -
  have asc: "sorted_wrt (\<lambda>a b. event_date a \<le> event_date b) (sort_key event_date rows)"
    using sorted_sort_key [of event_date rows] by (simp add: sorted_map)
  have "sorted (map (\<lambda>e. - event_date e) (sort_key (\<lambda>e. - event_date e) rows))"
    by (rule sorted_sort_key)
  then have desc: "sorted_wrt (\<lambda>a b. event_date b \<le> event_date a) (sort_key (\<lambda>e. - event_date e) rows)"
    by (simp add: sorted_map)
  from asc desc show ?thesis by (simp add: order_events_def)
qed

lemma order_predictions_sorted:
  "sorted_wrt (\<lambda>a b. event_date (snd b) < event_date (snd a)
                 \<or> (event_date (snd b) = event_date (snd a)
                     \<and> pr_created_at (fst b) \<le> pr_created_at (fst a)))
     (order_predictions rows)"
proof -
  have "sorted (map (\<lambda>pe. (- event_date (snd pe), - pr_created_at (fst pe))) (order_predictions rows))"
    unfolding order_predictions_def by (rule sorted_sort_key)
  then have "sorted_wrt (\<lambda>a b. (- event_date (snd a), - pr_created_at (fst a))
                            \<le> (- event_date (snd b), - pr_created_at (fst b)))
               (order_predictions rows)"
    by (simp add: sorted_map)
  then show ?thesis
    by (rule sorted_wrt_mono_rel [rotated]) (auto simp: less_eq_prod_def)
qed

lemma is_archived_with_prediction: "is_archived (with_prediction d e) = is_archived e"
  by (simp add: with_prediction_def)

lemma event_date_with_prediction: "event_date (with_prediction d e) = event_date e"
  by (simp add: with_prediction_def)

lemma ceiling_div_int:
  "\<lceil>(of_nat n :: rat) / of_int l\<rceil> = - ((- int n) div l)"
proof -
  have "- ((of_nat n :: rat) / of_int l) = of_int (- int n) / of_int l" by simp
  then show ?thesis unfolding ceiling_def by (simp only: floor_divide_of_int_eq)
qed

lemma Math_ceil_div_int:
  "l \<noteq> 0 \<Longrightarrow> Math_ceil_div n l = Finite (- ((- int n) div l))"
  unfolding Math_ceil_div_def ceiling_div_int by simp


lemma findAll_events_rows:
  assumes "EventRepository_findAll now d filters pg = Inr (evs, n)"
  shows "\<exists>rows. evs = map (with_prediction d) rows
           \<and> limit_offset (limit pg) (offset pg)
                (order_events (f_when filters) (filter (events_where now filters) (events d)))
              = Inr rows
           \<and> n = length (filter (events_where now filters) (events d))
           \<and> dates_ok filters"
  using assms
  by (auto simp: EventRepository_findAll_def Let_def split: if_splits sum.splits)

lemma findAll_events_not_archived:
  assumes "EventRepository_findAll now d filters pg = Inr (evs, n)"
  shows "\<forall>e \<in> set evs. \<not> is_archived e \<and> (\<exists>r \<in> set (events d). e = with_prediction d r \<and> events_where now filters r)"
proof -
  from findAll_events_rows [OF assms] obtain rows where
    evs: "evs = map (with_prediction d) rows"
    and lo: "limit_offset (limit pg) (offset pg)
                (order_events (f_when filters) (filter (events_where now filters) (events d)))
              = Inr rows" by blast
  from limit_offset_subset [OF lo]
  have sub: "set rows \<subseteq> set (filter (events_where now filters) (events d))"
    by (simp add: set_order_events)
  show ?thesis
  proof
    fix e assume "e \<in> set evs"
    then obtain r where r: "r \<in> set rows" "e = with_prediction d r" by (auto simp: evs)
    with sub have mem: "r \<in> set (events d)" and w: "events_where now filters r" by auto
    from w have "\<not> is_archived r" by (simp add: events_where_def)
    with r mem w show "\<not> is_archived e \<and> (\<exists>r \<in> set (events d). e = with_prediction d r \<and> events_where now filters r)"
      by (auto simp: is_archived_with_prediction)
  qed
qed



lemma getEvents_Inr:
  assumes "getEvents now d filters pg = Inr r"
  shows "\<exists>evs n. EventRepository_findAll now d filters pg = Inr (evs, n) \<and> data r = evs
           \<and> pagination r = \<lparr>resp_page = page pg, resp_limit = limit pg, total = n,
                              totalPages = Math_ceil_div n (limit pg)\<rparr>"
  using assms by (auto simp: getEvents_def split: sum.splits)

lemma GET_api_events_Inr:
  assumes "GET_api_events Date_parse now d q = Inr r"
  shows "getEvents now d (events_filters Date_parse q) (parse_pagination (q_page q) (q_limit q)) = Inr r
         \<and> default_to (q_when q) ''all'' \<in> set [''upcoming'', ''past'', ''all'']"
  using assms by (auto simp: GET_api_events_def Let_def split: if_splits)

lemma findAll_rows_Inr:
  assumes "PredictionRepository_findAll_rows d filters pg = Inr (rows, n)"
  shows "limit_offset (limit pg) (offset pg)
           (order_predictions (filter (predictions_where filters) (predictions_join_events d)))
         = Inr rows
         \<and> n = length (filter (predictions_where filters) (predictions_join_events d))
         \<and> dates_ok filters"
  using assms
  by (auto simp: PredictionRepository_findAll_rows_def Let_def split: if_splits sum.splits)

lemma findAll_predictions_Inr:
  assumes "PredictionRepository_findAll d filters pg = Inr (preds, n)"
  shows "\<exists>rows. PredictionRepository_findAll_rows d filters pg = Inr (rows, n) \<and> preds = map fst rows"
  using assms by (auto simp: PredictionRepository_findAll_def split: sum.splits)

lemma join_member:
  "(p, e) \<in> set (predictions_join_events d)
   \<longleftrightarrow> p \<in> set (predictions d) \<and> e \<in> set (events d) \<and> event_id p = ev_id e"
  by (auto simp: predictions_join_events_def)

lemma findAll_predictions_joined:
  assumes "PredictionRepository_findAll d filters pg = Inr (preds, n)"
  shows "\<forall>p \<in> set preds. \<exists>e \<in> set (events d). ev_id e = event_id p
            \<and> p \<in> set (predictions d) \<and> predictions_where filters (p, e)"
proof -
  from findAll_predictions_Inr [OF assms] obtain rows where
    fr: "PredictionRepository_findAll_rows d filters pg = Inr (rows, n)" and preds: "preds = map fst rows"
    by blast
  from findAll_rows_Inr [OF fr] have
    lo: "limit_offset (limit pg) (offset pg)
           (order_predictions (filter (predictions_where filters) (predictions_join_events d)))
         = Inr rows" by simp
  from limit_offset_subset [OF lo]
  have sub: "set rows \<subseteq> set (filter (predictions_where filters) (predictions_join_events d))"
    by (simp add: set_order_predictions)
  show ?thesis
  proof
    fix p assume "p \<in> set preds"
    then obtain e where "(p, e) \<in> set rows" by (auto simp: preds)
    with sub have "(p, e) \<in> set (predictions_join_events d)" "predictions_where filters (p, e)"
      by auto
    then show "\<exists>e \<in> set (events d). ev_id e = event_id p
            \<and> p \<in> set (predictions d) \<and> predictions_where filters (p, e)"
      by (auto simp: join_member)
  qed
qed



lemma GET_api_predictions_Inr:
  assumes "GET_api_predictions Date_parse parseFloat d q = Inr r"
  shows "\<exists>f preds n. predictions_filters Date_parse parseFloat q = Inr f
          \<and> PredictionRepository_findAll d f (parse_pagination (q_page q) (q_limit q)) = Inr (preds, n)
          \<and> data r = preds
          \<and> pagination r = \<lparr>resp_page = page (parse_pagination (q_page q) (q_limit q)),
                resp_limit = limit (parse_pagination (q_page q) (q_limit q)), total = n,
                totalPages = Math_ceil_div n (limit (parse_pagination (q_page q) (q_limit q)))\<rparr>"
  using assms by (auto simp: GET_api_predictions_def Let_def split: sum.splits)

lemma unique_id:
  assumes "distinct (map ev_id xs)" "e \<in> set xs" "e' \<in> set xs" "ev_id e = ev_id e'"
  shows "e = e'"
  using assms by (meson distinct_map inj_onD)





subsection \<open>The lists on example data\<close>

lemmas list_db_defs = list_db_def event_row_def prediction_row_def

lemmas where_defs = events_where_def common_where_def eq_filter_def truthy_def date_from_def
  date_until_def dates_ok_def predictions_where_def



lemma parseInt_1: "parseInt ''1'' = Some 1"
  by (simp add: parseInt_def isWhiteSpace_def isDigit_def digits_value_def Let_def)


lemma parseInt_20: "parseInt ''20'' = Some 20"
  by (simp add: parseInt_def isWhiteSpace_def isDigit_def digits_value_def Let_def)



lemma pagination_default:
  "parse_pagination None None = \<lparr>page = 1, limit = 20, offset = 0\<rparr>"
  by (simp add: parse_pagination_def default_to_def or_default_def parseInt_1 parseInt_20)




lemma events_query_page_limit:
  "q_page (events_query p l) = p" "q_limit (events_query p l) = l"
  "q_when (events_query p l) = None"
  by (simp_all add: events_query_def)

lemma predictions_query_sel:
  "q_page (predictions_query p l) = p" "q_limit (predictions_query p l) = l"
  by (simp_all add: predictions_query_def)

lemma events_filters_plain:
  "events_filters D (events_query p l)
   = no_event_filters\<lparr>f_when := Some ''all'', f_includePredictions := Some True\<rparr>"
  by (simp add: events_filters_def events_query_def no_event_filters_def if_truthy_def
      default_to_def)

lemma predictions_filters_plain:
  "predictions_filters D F (predictions_query p l)
   = Inr (no_prediction_filters\<lparr>f_includeArchived := Some False\<rparr>)"
  by (simp add: predictions_filters_def predictions_query_def no_prediction_filters_def
      if_truthy_def default_to_def truthy_def)

lemma list_events_all:
  "EventRepository_findAll 1769000000000 list_db no_event_filters first_page
   = Inr (map (with_prediction list_db)
            [event_row 4 ''d'' 1800000000000 4000 False,
             event_row 1 ''a'' 1768489200000 1000 False,
             event_row 2 ''b'' 1768489200000 2000 False], 3)"
  by (simp add: EventRepository_findAll_def no_event_filters_def first_page_def where_defs
      list_db_defs limit_offset_def order_events_def Let_def)

lemma list_events_upcoming:
  "EventRepository_findAll 1769000000000 list_db (no_event_filters\<lparr>f_when := Some ''upcoming''\<rparr>)
     first_page
   = Inr (map (with_prediction list_db) [event_row 4 ''d'' 1800000000000 4000 False], 1)"
  by (simp add: EventRepository_findAll_def no_event_filters_def first_page_def where_defs
      list_db_defs limit_offset_def order_events_def Let_def)

lemma list_events_handler:
  "EventRepository_findAll 1769000000000 list_db
     (no_event_filters\<lparr>f_when := Some ''all'', f_includePredictions := Some True\<rparr>)
     \<lparr>page = pn, limit = 20, offset = 0\<rparr>
   = Inr (map (with_prediction list_db)
            [event_row 4 ''d'' 1800000000000 4000 False,
             event_row 1 ''a'' 1768489200000 1000 False,
             event_row 2 ''b'' 1768489200000 2000 False], 3)"
  by (simp add: EventRepository_findAll_def no_event_filters_def where_defs
      list_db_defs limit_offset_def order_events_def Let_def)

lemma list_prediction_rows:
  "PredictionRepository_findAll_rows list_db no_prediction_filters first_page
   = Inr ([(prediction_row 3 2 70 7000, event_row 2 ''b'' 1768489200000 2000 False),
           (prediction_row 1 1 80 5000, event_row 1 ''a'' 1768489200000 1000 False)], 2)"
  by (simp add: PredictionRepository_findAll_rows_def no_prediction_filters_def first_page_def
      where_defs list_db_defs limit_offset_def order_predictions_def predictions_join_events_def
      Let_def less_eq_prod_def)

lemma list_predictions_default:
  "PredictionRepository_findAll list_db no_prediction_filters first_page
   = Inr ([prediction_row 3 2 70 7000, prediction_row 1 1 80 5000], 2)"
  by (simp add: PredictionRepository_findAll_def list_prediction_rows)

lemma list_predictions_handler:
  "PredictionRepository_findAll_rows list_db
     (no_prediction_filters\<lparr>f_includeArchived := Some False\<rparr>) \<lparr>page = pn, limit = 20, offset = 0\<rparr>
   = Inr ([(prediction_row 3 2 70 7000, event_row 2 ''b'' 1768489200000 2000 False),
           (prediction_row 1 1 80 5000, event_row 1 ''a'' 1768489200000 1000 False)], 2)"
  by (simp add: PredictionRepository_findAll_rows_def no_prediction_filters_def
      where_defs list_db_defs limit_offset_def order_predictions_def predictions_join_events_def
      Let_def less_eq_prod_def)

lemma run_events_default:
  "GET_api_events no_date 1769000000000 list_db (events_query None None)
   = Inr \<lparr>data = map (with_prediction list_db)
                     [event_row 4 ''d'' 1800000000000 4000 False,
                      event_row 1 ''a'' 1768489200000 1000 False,
                      event_row 2 ''b'' 1768489200000 2000 False],
          pagination = \<lparr>resp_page = 1, resp_limit = 20, total = 3, totalPages = Finite 1\<rparr>\<rparr>"
  by (simp add: GET_api_events_def getEvents_def events_filters_plain events_query_page_limit
      pagination_default list_events_handler Math_ceil_div_int Let_def default_to_def)


lemma run_predictions_default:
  "GET_api_predictions no_date integer_float list_db (predictions_query None None)
   = Inr \<lparr>data = [prediction_row 3 2 70 7000, prediction_row 1 1 80 5000],
          pagination = \<lparr>resp_page = 1, resp_limit = 20, total = 2, totalPages = Finite 1\<rparr>\<rparr>"
  by (simp add: GET_api_predictions_def predictions_filters_plain predictions_query_sel
      pagination_default PredictionRepository_findAll_def list_predictions_handler Math_ceil_div_int
      Let_def)


subsection \<open>Pagination arithmetic\<close>



subsection \<open>Archived data in the lists\<close>

text \<open>
  Claim C4. A list call with \<^verbatim>\<open>includeArchived\<close> absent or false returns no archived data:
  every prediction that \<^verbatim>\<open>PredictionRepository.findAll\<close> returns is joined to an event
  with \<^verbatim>\<open>is_archived = false\<close> (its only event, when ids are unique), the same holds for
  \<^verbatim>\<open>GET /api/predictions\<close> when the query parameter is not \<^verbatim>\<open>true\<close>, and every event that
  \<^verbatim>\<open>EventRepository.findAll\<close> returns has \<^verbatim>\<open>is_archived = false\<close>.
\<close>

theorem default_excludes_archived:
  "(f_includeArchived filters \<noteq> Some True
      \<and> PredictionRepository_findAll d filters pg = Inr (preds, n)
     \<longrightarrow> (\<forall>p \<in> set preds. \<exists>e \<in> set (events d). ev_id e = event_id p \<and> is_archived e = False))
   \<and> (f_includeArchived filters \<noteq> Some True
      \<and> PredictionRepository_findAll d filters pg = Inr (preds, n)
      \<and> distinct (map ev_id (events d))
     \<longrightarrow> (\<forall>p \<in> set preds. \<forall>e \<in> set (events d). ev_id e = event_id p \<longrightarrow> is_archived e = False))
   \<and> (q_includeArchived q \<noteq> Some ''true''
      \<and> GET_api_predictions Date_parse parseFloat d q = Inr r
     \<longrightarrow> (\<forall>p \<in> set (data r). \<exists>e \<in> set (events d). ev_id e = event_id p \<and> is_archived e = False))
   \<and> (EventRepository_findAll now d efilters pg = Inr (evs, m)
     \<longrightarrow> (\<forall>e \<in> set evs. is_archived e = False))"
proof (intro conjI impI)
  assume a: "f_includeArchived filters \<noteq> Some True
      \<and> PredictionRepository_findAll d filters pg = Inr (preds, n)"
  then have fa: "PredictionRepository_findAll d filters pg = Inr (preds, n)" by simp
  from findAll_predictions_joined [OF fa] a
  show "\<forall>p \<in> set preds. \<exists>e \<in> set (events d). ev_id e = event_id p \<and> is_archived e = False"
    by (fastforce simp: predictions_where_def)
next
  assume a: "f_includeArchived filters \<noteq> Some True
      \<and> PredictionRepository_findAll d filters pg = Inr (preds, n)
      \<and> distinct (map ev_id (events d))"
  then have fa: "PredictionRepository_findAll d filters pg = Inr (preds, n)"
    and dist: "distinct (map ev_id (events d))" by simp_all
  show "\<forall>p \<in> set preds. \<forall>e \<in> set (events d). ev_id e = event_id p \<longrightarrow> is_archived e = False"
  proof (intro ballI impI)
    fix p e assume p: "p \<in> set preds" and e: "e \<in> set (events d)" "ev_id e = event_id p"
    from findAll_predictions_joined [OF fa] p obtain e' where
      e': "e' \<in> set (events d)" "ev_id e' = event_id p" "predictions_where filters (p, e')"
      by blast
    from unique_id [OF dist e(1) e'(1)] e e' have "e = e'" by simp
    with e' a show "is_archived e = False" by (simp add: predictions_where_def)
  qed
next
  assume a: "q_includeArchived q \<noteq> Some ''true''
      \<and> GET_api_predictions Date_parse parseFloat d q = Inr r"
  then have run: "GET_api_predictions Date_parse parseFloat d q = Inr r" by simp
  from GET_api_predictions_Inr [OF run] obtain f preds n where
    pf: "predictions_filters Date_parse parseFloat q = Inr f"
    and fa: "PredictionRepository_findAll d f (parse_pagination (q_page q) (q_limit q)) = Inr (preds, n)"
    and dr: "data r = preds" by blast
  from pf a have "f_includeArchived f \<noteq> Some True"
    by (auto simp: predictions_filters_def default_to_def split: if_splits option.splits)
  with findAll_predictions_joined [OF fa] dr
  show "\<forall>p \<in> set (data r). \<exists>e \<in> set (events d). ev_id e = event_id p \<and> is_archived e = False"
    by (fastforce simp: predictions_where_def)
next
  assume "EventRepository_findAll now d efilters pg = Inr (evs, m)"
  from findAll_events_not_archived [OF this]
  show "\<forall>e \<in> set evs. is_archived e = False" by blast
qed

theorem default_excludes_archived_witness:
  "f_includeArchived no_prediction_filters \<noteq> Some True
   \<and> PredictionRepository_findAll list_db no_prediction_filters first_page
       = Inr ([prediction_row 3 2 70 7000, prediction_row 1 1 80 5000], 2)
   \<and> distinct (map ev_id (events list_db))
   \<and> q_includeArchived (predictions_query None None) \<noteq> Some ''true''
   \<and> list_all (\<lambda>p. list_ex (\<lambda>e. ev_id e = event_id p \<and> is_archived e = False) (events list_db))
        [prediction_row 3 2 70 7000, prediction_row 1 1 80 5000]
   \<and> list_all (\<lambda>p. list_all (\<lambda>e. ev_id e \<noteq> event_id p \<or> is_archived e = False) (events list_db))
        [prediction_row 3 2 70 7000, prediction_row 1 1 80 5000]
   \<and> list_all (\<lambda>e. is_archived e = False)
        (map (with_prediction list_db)
            [event_row 4 ''d'' 1800000000000 4000 False,
             event_row 1 ''a'' 1768489200000 1000 False,
             event_row 2 ''b'' 1768489200000 2000 False])
   \<and> map (\<lambda>p. event_id p) (predictions list_db) = [1, 3, 2]
   \<and> map is_archived (events list_db) = [False, False, True, False]"
proof -
  note inst = default_excludes_archived [where filters = no_prediction_filters and d = list_db
      and pg = first_page
      and preds = "[prediction_row 3 2 70 7000, prediction_row 1 1 80 5000]" and n = 2
      and q = "predictions_query None None" and Date_parse = no_date
      and parseFloat = integer_float
      and r = "\<lparr>data = [prediction_row 3 2 70 7000, prediction_row 1 1 80 5000],
          pagination = \<lparr>resp_page = 1, resp_limit = 20, total = 2, totalPages = Finite 1\<rparr>\<rparr>"
      and now = 1769000000000 and efilters = no_event_filters
      and evs = "map (with_prediction list_db)
            [event_row 4 ''d'' 1800000000000 4000 False,
             event_row 1 ''a'' 1768489200000 1000 False,
             event_row 2 ''b'' 1768489200000 2000 False]" and m = 3]
  have h1: "f_includeArchived no_prediction_filters \<noteq> Some True"
    by (simp add: no_prediction_filters_def)
  have h2: "distinct (map ev_id (events list_db))"
    by (simp add: list_db_defs)
  have h3: "q_includeArchived (predictions_query None None) \<noteq> Some ''true''"
    by (simp add: predictions_query_def)
  from inst h1 list_predictions_default
  have c1: "list_all (\<lambda>p. list_ex (\<lambda>e. ev_id e = event_id p \<and> is_archived e = False) (events list_db))
        [prediction_row 3 2 70 7000, prediction_row 1 1 80 5000]"
    unfolding list_all_iff list_ex_iff by blast
  from inst h1 h2 list_predictions_default
  have c2: "list_all (\<lambda>p. list_all (\<lambda>e. ev_id e \<noteq> event_id p \<or> is_archived e = False) (events list_db))
        [prediction_row 3 2 70 7000, prediction_row 1 1 80 5000]"
    unfolding list_all_iff by blast
  from inst list_events_all
  have c3: "list_all (\<lambda>e. is_archived e = False)
        (map (with_prediction list_db)
            [event_row 4 ''d'' 1800000000000 4000 False,
             event_row 1 ''a'' 1768489200000 1000 False,
             event_row 2 ''b'' 1768489200000 2000 False])"
    unfolding list_all_iff by blast
  have c4: "map (\<lambda>p. event_id p) (predictions list_db) = [1, 3, 2]"
    "map is_archived (events list_db) = [False, False, True, False]"
    by (simp_all add: list_db_defs)
  from h1 h2 h3 c1 c2 c3 c4 list_predictions_default show ?thesis by blast
qed

text \<open>
  Claim C10. The events list never returns an archived event: whatever the filters and
  the pagination, every event that \<^verbatim>\<open>EventRepository.findAll\<close> returns, and hence every
  event in the answer of \<^verbatim>\<open>GET /api/events\<close>, has \<^verbatim>\<open>is_archived = false\<close>. No filter key
  and no query parameter lifts the condition.
\<close>

theorem events_list_excludes_archived:
  "(EventRepository_findAll now d filters pg = Inr (evs, n)
      \<longrightarrow> (\<forall>e \<in> set evs. is_archived e = False))
   \<and> (GET_api_events Date_parse now d q = Inr r
      \<longrightarrow> (\<forall>e \<in> set (data r). is_archived e = False))"
proof (intro conjI impI)
  assume "EventRepository_findAll now d filters pg = Inr (evs, n)"
  from findAll_events_not_archived [OF this]
  show "\<forall>e \<in> set evs. is_archived e = False" by blast
next
  assume "GET_api_events Date_parse now d q = Inr r"
  from GET_api_events_Inr [OF this] getEvents_Inr obtain evs n where
    "EventRepository_findAll now d (events_filters Date_parse q)
       (parse_pagination (q_page q) (q_limit q)) = Inr (evs, n)" "data r = evs"
    by blast
  with findAll_events_not_archived show "\<forall>e \<in> set (data r). is_archived e = False"
    by blast
qed

theorem events_list_excludes_archived_witness:
  "EventRepository_findAll 1769000000000 list_db no_event_filters first_page
   = Inr (map (with_prediction list_db)
            [event_row 4 ''d'' 1800000000000 4000 False,
             event_row 1 ''a'' 1768489200000 1000 False,
             event_row 2 ''b'' 1768489200000 2000 False], 3)
   \<and> list_all (\<lambda>e. is_archived e = False)
        (map (with_prediction list_db)
            [event_row 4 ''d'' 1800000000000 4000 False,
             event_row 1 ''a'' 1768489200000 1000 False,
             event_row 2 ''b'' 1768489200000 2000 False])
   \<and> map is_archived (events list_db) = [False, False, True, False]"
proof -
  note inst = events_list_excludes_archived [where now = 1769000000000 and d = list_db
      and filters = no_event_filters and pg = first_page
      and evs = "map (with_prediction list_db)
            [event_row 4 ''d'' 1800000000000 4000 False,
             event_row 1 ''a'' 1768489200000 1000 False,
             event_row 2 ''b'' 1768489200000 2000 False]" and n = 3
      and Date_parse = no_date and q = "events_query None None"
      and r = "\<lparr>data = map (with_prediction list_db)
                     [event_row 4 ''d'' 1800000000000 4000 False,
                      event_row 1 ''a'' 1768489200000 1000 False,
                      event_row 2 ''b'' 1768489200000 2000 False],
          pagination = \<lparr>resp_page = 1, resp_limit = 20, total = 3, totalPages = Finite 1\<rparr>\<rparr>"]
  from inst list_events_all run_events_default
  have "list_all (\<lambda>e. is_archived e = False)
        (map (with_prediction list_db)
            [event_row 4 ''d'' 1800000000000 4000 False,
             event_row 1 ''a'' 1768489200000 1000 False,
             event_row 2 ''b'' 1768489200000 2000 False])"
    unfolding list_all_iff by blast
  moreover have "map is_archived (events list_db) = [False, False, True, False]"
    by (simp add: list_db_defs)
  ultimately show ?thesis using list_events_all by blast
qed

subsection \<open>Order of the lists\<close>

text \<open>
  Claim C6, as amended. The predictions list is ordered by event date descending, rows of
  equal event date by the prediction's creation time descending. The events list is
  ordered by event date only: descending, and ascending when the temporal bucket is
  \<^verbatim>\<open>upcoming\<close>; its query has no second sort key.
\<close>

theorem list_order:
  "(EventRepository_findAll now d filters pg = Inr (evs, n) \<longrightarrow>
      (if f_when filters = Some ''upcoming''
       then sorted_wrt (\<lambda>a b. event_date a \<le> event_date b) evs
       else sorted_wrt (\<lambda>a b. event_date b \<le> event_date a) evs))
   \<and> (PredictionRepository_findAll_rows d pfilters pg = Inr (rows, m) \<longrightarrow>
        sorted_wrt (\<lambda>a b. event_date (snd b) < event_date (snd a)
                      \<or> (event_date (snd b) = event_date (snd a)
                          \<and> pr_created_at (fst b) \<le> pr_created_at (fst a))) rows
        \<and> PredictionRepository_findAll d pfilters pg = Inr (map fst rows, m))"
proof (intro conjI impI)
  assume fa: "EventRepository_findAll now d filters pg = Inr (evs, n)"
  let ?m = "filter (events_where now filters) (events d)"
  from fa obtain rows where
    evs: "evs = map (with_prediction d) rows"
    and lo: "limit_offset (limit pg) (offset pg) (order_events (f_when filters) ?m) = Inr rows"
    by (auto simp: EventRepository_findAll_def Let_def split: if_splits sum.splits)
  show "if f_when filters = Some ''upcoming''
       then sorted_wrt (\<lambda>a b. event_date a \<le> event_date b) evs
       else sorted_wrt (\<lambda>a b. event_date b \<le> event_date a) evs"
  proof (cases "f_when filters = Some ''upcoming''")
    case True
    with order_events_sorted [of "f_when filters" ?m]
    have "sorted_wrt (\<lambda>a b. event_date a \<le> event_date b) (order_events (f_when filters) ?m)"
      by simp
    from sorted_wrt_limit_offset [OF lo this] True show ?thesis
      by (simp add: evs sorted_wrt_map event_date_with_prediction)
  next
    case False
    with order_events_sorted [of "f_when filters" ?m]
    have "sorted_wrt (\<lambda>a b. event_date b \<le> event_date a) (order_events (f_when filters) ?m)"
      by simp
    from sorted_wrt_limit_offset [OF lo this] False show ?thesis
      by (simp add: evs sorted_wrt_map event_date_with_prediction)
  qed
next
  assume fr: "PredictionRepository_findAll_rows d pfilters pg = Inr (rows, m)"
  then have lo: "limit_offset (limit pg) (offset pg)
           (order_predictions (filter (predictions_where pfilters) (predictions_join_events d)))
         = Inr rows"
    by (auto simp: PredictionRepository_findAll_rows_def Let_def split: if_splits sum.splits)
  from sorted_wrt_limit_offset [OF lo order_predictions_sorted]
  show "sorted_wrt (\<lambda>a b. event_date (snd b) < event_date (snd a)
                      \<or> (event_date (snd b) = event_date (snd a)
                          \<and> pr_created_at (fst b) \<le> pr_created_at (fst a))) rows" .
next
  assume fr: "PredictionRepository_findAll_rows d pfilters pg = Inr (rows, m)"
  then show "PredictionRepository_findAll d pfilters pg = Inr (map fst rows, m)"
    by (simp add: PredictionRepository_findAll_def)
qed

theorem list_order_witness:
  "sorted_wrt (\<lambda>a b. event_date a \<le> event_date b)
     (map (with_prediction list_db) [event_row 4 ''d'' 1800000000000 4000 False])
   \<and> sorted_wrt (\<lambda>a b. event_date b \<le> event_date a)
       (map (with_prediction list_db)
            [event_row 4 ''d'' 1800000000000 4000 False,
             event_row 1 ''a'' 1768489200000 1000 False,
             event_row 2 ''b'' 1768489200000 2000 False])
   \<and> sorted_wrt (\<lambda>a b. event_date (snd b) < event_date (snd a)
                      \<or> (event_date (snd b) = event_date (snd a)
                          \<and> pr_created_at (fst b) \<le> pr_created_at (fst a)))
        [(prediction_row 3 2 70 7000, event_row 2 ''b'' 1768489200000 2000 False),
         (prediction_row 1 1 80 5000, event_row 1 ''a'' 1768489200000 1000 False)]
   \<and> PredictionRepository_findAll list_db no_prediction_filters first_page
       = Inr ([prediction_row 3 2 70 7000, prediction_row 1 1 80 5000], 2)"
proof -
  note up = list_order [where now = 1769000000000 and d = list_db
      and filters = "no_event_filters\<lparr>f_when := Some ''upcoming''\<rparr>" and pg = first_page
      and evs = "map (with_prediction list_db) [event_row 4 ''d'' 1800000000000 4000 False]"
      and n = 1 and pfilters = no_prediction_filters
      and rows = "[(prediction_row 3 2 70 7000, event_row 2 ''b'' 1768489200000 2000 False),
           (prediction_row 1 1 80 5000, event_row 1 ''a'' 1768489200000 1000 False)]"
      and m = 2]
  note dn = list_order [where now = 1769000000000 and d = list_db
      and filters = no_event_filters and pg = first_page
      and evs = "map (with_prediction list_db)
            [event_row 4 ''d'' 1800000000000 4000 False,
             event_row 1 ''a'' 1768489200000 1000 False,
             event_row 2 ''b'' 1768489200000 2000 False]"
      and n = 3 and pfilters = no_prediction_filters
      and rows = "[(prediction_row 3 2 70 7000, event_row 2 ''b'' 1768489200000 2000 False),
           (prediction_row 1 1 80 5000, event_row 1 ''a'' 1768489200000 1000 False)]"
      and m = 2]
  have w1: "f_when (no_event_filters\<lparr>f_when := Some ''upcoming''\<rparr>) = Some ''upcoming''"
    by simp
  have w2: "f_when no_event_filters \<noteq> Some ''upcoming''"
    by (simp add: no_event_filters_def)
  from up have a: "sorted_wrt (\<lambda>a b. event_date a \<le> event_date b)
     (map (with_prediction list_db) [event_row 4 ''d'' 1800000000000 4000 False])"
    unfolding list_events_upcoming w1 by simp
  from dn w2 have b: "sorted_wrt (\<lambda>a b. event_date b \<le> event_date a)
       (map (with_prediction list_db)
            [event_row 4 ''d'' 1800000000000 4000 False,
             event_row 1 ''a'' 1768489200000 1000 False,
             event_row 2 ''b'' 1768489200000 2000 False])"
    unfolding list_events_all by simp
  from dn have c: "sorted_wrt (\<lambda>a b. event_date (snd b) < event_date (snd a)
                      \<or> (event_date (snd b) = event_date (snd a)
                          \<and> pr_created_at (fst b) \<le> pr_created_at (fst a)))
        [(prediction_row 3 2 70 7000, event_row 2 ''b'' 1768489200000 2000 False),
         (prediction_row 1 1 80 5000, event_row 1 ''a'' 1768489200000 1000 False)]
     \<and> PredictionRepository_findAll list_db no_prediction_filters first_page
       = Inr ([prediction_row 3 2 70 7000, prediction_row 1 1 80 5000], 2)"
    unfolding list_prediction_rows by simp
  from a b c show ?thesis by blast
qed

text \<open>
  Claim C6 as stated fails: two events of the same event date come back in table order, the earlier-created first:
  no tie-break on creation time descending orders the events list.
\<close>

theorem list_order_counterexample:
  "(case EventRepository_findAll 1769000000000 list_db no_event_filters first_page of
      Inl err \<Rightarrow> False
    | Inr (evs, n) \<Rightarrow>
        map ev_id evs = [4, 1, 2]
        \<and> map event_date evs = [1800000000000, 1768489200000, 1768489200000]
        \<and> map ev_created_at evs = [4000, 1000, 2000])"
  by (simp add: list_events_all with_prediction_def event_row_def)

subsection \<open>Updates without fields\<close>

lemma update_event_no_fields:
  "event_patch_fields p = [] \<Longrightarrow> EventRepository_update now d i p = (d, Inr None)"
  by (simp add: EventRepository_update_def)

lemma update_prediction_no_fields:
  "prediction_patch_fields p = [] \<Longrightarrow> PredictionRepository_update now d i p = (d, Inr None)"
  by (simp add: PredictionRepository_update_def)

lemma event_patch_fields_empty_iff:
  "event_patch_fields p = [] \<longleftrightarrow>
     p_event_ref p = None \<and> p_sport p = None \<and> p_league p = None \<and> p_home_team p = None
     \<and> p_away_team p = None \<and> p_event_date p = None \<and> p_venue p = None \<and> p_status p = None
     \<and> p_is_archived p = None"
  by (auto simp: event_patch_fields_def split: option.splits)

lemma prediction_patch_fields_empty_iff:
  "prediction_patch_fields p = [] \<longleftrightarrow>
     pp_event_id p = None \<and> pp_prediction_type p = None \<and> pp_predicted_value p = None
     \<and> pp_confidence_score p = None \<and> pp_reasoning p = None \<and> pp_model_version p = None
     \<and> pp_is_archived p = None"
  by (auto simp: prediction_patch_fields_def split: option.splits)

text \<open>
  Claim C7, as amended. An update that provides no field (only \<^verbatim>\<open>id\<close>, \<^verbatim>\<open>created_at\<close> or
  \<^verbatim>\<open>updated_at\<close>, which are ignored, or nothing at all) runs no statement, leaves the store
  as it is and returns \<^verbatim>\<open>null\<close>, for events and for predictions.
\<close>

theorem update_without_fields:
  "(p_event_ref p = None \<and> p_sport p = None \<and> p_league p = None \<and> p_home_team p = None
     \<and> p_away_team p = None \<and> p_event_date p = None \<and> p_venue p = None \<and> p_status p = None
     \<and> p_is_archived p = None
    \<longrightarrow> EventRepository_update now d i p = (d, Inr None))
   \<and> (pp_event_id pp = None \<and> pp_prediction_type pp = None \<and> pp_predicted_value pp = None
     \<and> pp_confidence_score pp = None \<and> pp_reasoning pp = None \<and> pp_model_version pp = None
     \<and> pp_is_archived pp = None
    \<longrightarrow> PredictionRepository_update now d i pp = (d, Inr None))"
  using update_event_no_fields [of p now d i] update_prediction_no_fields [of pp now d i]
  by (simp add: event_patch_fields_empty_iff prediction_patch_fields_empty_iff)

theorem update_without_fields_witness:
  "EventRepository_update 5000 list_db 1 no_event_patch = (list_db, Inr None)
   \<and> PredictionRepository_update 5000 list_db 1 no_prediction_patch = (list_db, Inr None)"
  using update_without_fields [of no_event_patch 5000 list_db 1 no_prediction_patch]
  by (simp add: no_event_patch_def no_prediction_patch_def)

text \<open>
  Claim C7 as stated fails: event 1 and prediction 1 are stored, yet an update of either with no fields returns
  \<^verbatim>\<open>null\<close>, not the stored record.
\<close>

theorem update_without_fields_counterexample:
  "findById list_db 1 = Some (event_row 1 ''a'' 1768489200000 1000 False)
   \<and> snd (EventRepository_update 5000 list_db 1 no_event_patch) = Inr None
   \<and> snd (PredictionRepository_update 5000 list_db 1 no_prediction_patch) = Inr None"
  by (simp add: findById_def rows0_def list_db_defs EventRepository_update_def
      PredictionRepository_update_def event_patch_fields_def prediction_patch_fields_def
      no_event_patch_def no_prediction_patch_def)

subsection \<open>Page and limit that do not parse\<close>




subsection \<open>Batch ingestion\<close>

lemma ingest_derby:
  "ingest_fields (derby_entry\<lparr>d_event_ref := ref\<rparr>) t
   = \<lparr>event_ref = ref, sport = ''Football'', league = ''Premier League'',
      home_team = ''Manchester United'', away_team = ''Liverpool'', event_date = t,
      venue = Some ''Old Trafford'', status = ''SCHEDULED''\<rparr>"
  by (simp add: ingest_fields_def derby_entry_def ingest_team_def ingest_status_def
      nullish_def default_to_def truthy_def Let_def)

text \<open>
  Claim C8, evaluated. \<^verbatim>\<open>loadEvents\<close> on a file of two entries that describe the same
  match (same sport, teams and date) under two different \<^verbatim>\<open>event_ref\<close> values stores two
  rows, whose \<^verbatim>\<open>event_ref\<close> are the values of the file; neither is the identity hash of the
  fields.
\<close>

theorem ingestion_copies_event_ref:
  "(case loadEvents derby_date_parse 1000 empty_db
           [derby_entry, derby_entry\<lparr>d_event_ref := ''evt-002''\<rparr>] of
      (d1, Inl err) \<Rightarrow> False
    | (d1, Inr created) \<Rightarrow>
        map event_ref (events d1) = [''evt-001'', ''evt-002'']
        \<and> map sport (events d1) = [''Football'', ''Football'']
        \<and> map home_team (events d1) = [''Manchester United'', ''Manchester United'']
        \<and> map away_team (events d1) = [''Liverpool'', ''Liverpool'']
        \<and> map event_date (events d1) = [1768489200000, 1768489200000]
        \<and> map ev_id created = [1, 2])
   \<and> generateEventRef ''Football'' ''Manchester United'' ''Liverpool'' (Some 1768489200000)
       \<noteq> Inr ''evt-001''
   \<and> generateEventRef ''Football'' ''Manchester United'' ''Liverpool'' (Some 1768489200000)
       \<noteq> Inr ''evt-002''"
proof -
  have d: "default_to (nullish (d_scheduled_at (derby_entry\<lparr>d_event_ref := ref\<rparr>))
                  (d_event_date (derby_entry\<lparr>d_event_ref := ref\<rparr>))) []
           = ''2026-01-15T15:00:00Z''" for ref
    by (simp add: derby_entry_def nullish_def default_to_def)
  have d0: "default_to (nullish (d_scheduled_at derby_entry) (d_event_date derby_entry)) []
           = ''2026-01-15T15:00:00Z''"
    by (simp add: derby_entry_def nullish_def default_to_def)
  have i0: "ingest_fields derby_entry t
   = \<lparr>event_ref = ''evt-001'', sport = ''Football'', league = ''Premier League'',
      home_team = ''Manchester United'', away_team = ''Liverpool'', event_date = t,
      venue = Some ''Old Trafford'', status = ''SCHEDULED''\<rparr>" for t
    using ingest_derby [of "''evt-001''" t] by (simp add: derby_entry_def)
  have run: "(case loadEvents derby_date_parse 1000 empty_db
           [derby_entry, derby_entry\<lparr>d_event_ref := ''evt-002''\<rparr>] of
      (d1, Inl err) \<Rightarrow> False
    | (d1, Inr created) \<Rightarrow>
        map event_ref (events d1) = [''evt-001'', ''evt-002'']
        \<and> map sport (events d1) = [''Football'', ''Football'']
        \<and> map home_team (events d1) = [''Manchester United'', ''Manchester United'']
        \<and> map away_team (events d1) = [''Liverpool'', ''Liverpool'']
        \<and> map event_date (events d1) = [1768489200000, 1768489200000]
        \<and> map ev_id created = [1, 2])"
    by (simp add: loadEvents_def d d0 i0 ingest_derby derby_date_parse_def
        EventRepository_create_def insert_event_on_conflict_do_nothing_def
        select_events_by_event_ref_def rows0_def empty_db_def Let_def)
  have n1: "generateEventRef ''Football'' ''Manchester United'' ''Liverpool'' (Some 1768489200000)
       \<noteq> Inr ''evt-001''"
    using generateEventRef_length [of "''Football''" "''Manchester United''" "''Liverpool''"
        "Some 1768489200000" "''evt-001''"] by auto
  have n2: "generateEventRef ''Football'' ''Manchester United'' ''Liverpool'' (Some 1768489200000)
       \<noteq> Inr ''evt-002''"
    using generateEventRef_length [of "''Football''" "''Manchester United''" "''Liverpool''"
        "Some 1768489200000" "''evt-002''"] by auto
  from run n1 n2 show ?thesis by blast
qed

end
